theory Spec2Isabelle
  imports Complex_Main
begin

section \<open>Monte Carlo simulation of n-day return percentiles\<close>

text \<open>
  A shallow embedding of \<^verbatim>\<open>MonteCarloSim.py\<close>.

  Conventions of the embedding.
  \<^item> Python floats and the entries of numpy arrays are mathematical reals: rounding,
    infinities and NaN of float64 arithmetic are outside the model. The one place where
    rounding decides a property, the compounding step with a window of one day, is
    written out a second time in float64 arithmetic.
  \<^item> Python integers are \<open>int\<close>.
  \<^item> A raised exception is the left injection of a sum; every operation returns its
    outcome together with the world it leaves behind.
  \<^item> The world holds what the program touches besides its arguments: the state of the
    process-wide numpy random generator, the sequence of matplotlib calls issued so far
    and the lines printed so far.
  \<^item> The two scipy routines the program calls, \<^verbatim>\<open>levy_stable.rvs\<close> and
    \<^verbatim>\<open>ks_2samp\<close>, are parameters of the model. \<^verbatim>\<open>np.percentile\<close>,
    \<^verbatim>\<open>np.prod\<close>, \<^verbatim>\<open>np.mean\<close>, \<^verbatim>\<open>np.std\<close> and \<^verbatim>\<open>np.arange\<close> are
    written out from their documented behaviour.
\<close>

subsection \<open>Errors, rendering calls, printed lines, the world\<close>

datatype py_error = ValueError | IndexError

datatype bins = BinRule string | BinEdges "real list"

datatype plot_call =
    Figure
  | Title string
  | XLabel string
  | YLabel string
  | Hist "real list" bins
  | Plot "int list" "real list"
  | Legend
  | Show

datatype out_line =
    StatisticLine real real int
  | SimulationFailed

record 'g world =
  rng :: 'g
  plots :: "plot_call list"
  stdout :: "out_line list"

text \<open>
  \<^verbatim>\<open>levy_stable.rvs(*parameters, size=n)\<close>: given the distribution parameters and the
  size it reads the generator state and either raises or returns the drawn values and
  the advanced generator state.
\<close>

type_synonym 'g sampler = "real list \<Rightarrow> int \<Rightarrow> 'g \<Rightarrow> py_error + (real list \<times> 'g)"

text \<open>\<^verbatim>\<open>ks_2samp(a, b)\<close>: the pair (statistic, p-value).\<close>

type_synonym ks_test = "real list \<Rightarrow> real list \<Rightarrow> real \<times> real"

subsection \<open>Python and numpy primitives\<close>

text \<open>
  \<^verbatim>\<open>xs[i:j]\<close>: a negative bound counts from the end, and both bounds are clipped to
  the sequence.
\<close>

definition py_slice :: "'a list \<Rightarrow> int \<Rightarrow> int \<Rightarrow> 'a list" where
  "py_slice xs i j =
     (let n = int (length xs);
          lo = (if i < 0 then max (i + n) 0 else min i n);
          hi = (if j < 0 then max (j + n) 0 else min j n)
      in drop (nat lo) (take (nat hi) xs))"

text \<open>\<^verbatim>\<open>range(k)\<close>: empty when \<open>k \<le> 0\<close>.\<close>

definition py_range :: "int \<Rightarrow> int list" where
  "py_range k = map int [0..<nat k]"

text \<open>
  \<^verbatim>\<open>np.percentile(a, q)\<close> with the default linear method: \<open>q\<close> is on the scale
  0 to 100 and is rejected outside it; the array is sorted and the value at the
  fractional position \<open>(n - 1) * q / 100\<close> is interpolated between its two neighbours.
  An empty array has no last element to inspect, which is reported as \<open>IndexError\<close>.
\<close>

definition np_percentile :: "real list \<Rightarrow> real \<Rightarrow> py_error + real" where
  "np_percentile a q =
     (let quantile = q / 100 in
      if \<not> (0 \<le> quantile \<and> quantile \<le> 1) then Inl ValueError
      else if a = [] then Inl IndexError
      else
        let arr = sort a;
            n = length arr;
            virtual_index = real (n - 1) * quantile;
            previous_index = nat \<lfloor>virtual_index\<rfloor>;
            next_index = min (previous_index + 1) (n - 1);
            gamma = virtual_index - real previous_index
        in Inr (arr ! previous_index + gamma * (arr ! next_index - arr ! previous_index)))"

text \<open>\<^verbatim>\<open>np.mean\<close> and \<^verbatim>\<open>np.std\<close> (population standard deviation).\<close>

definition np_mean :: "real list \<Rightarrow> real" where
  "np_mean xs = sum_list xs / real (length xs)"

definition np_std :: "real list \<Rightarrow> real" where
  "np_std xs = sqrt (np_mean (map (\<lambda>x. (x - np_mean xs)\<^sup>2) xs))"

text \<open>\<^verbatim>\<open>np.arange(start, stop, step)\<close> for a positive step.\<close>

definition np_arange :: "real \<Rightarrow> real \<Rightarrow> real \<Rightarrow> real list" where
  "np_arange start stop step =
     map (\<lambda>k. start + step * real k) [0..<nat \<lceil>(stop - start) / step\<rceil>]"

subsection \<open>Class \<^verbatim>\<open>Returns\<close>\<close>

record Returns =
  num_observations :: int
  ndays :: int
  parameters :: "real list"

definition default_levy_parameters :: "real list" where
  "default_levy_parameters = [17 / 10, 0, 1, 1]"

definition Returns_init :: "int \<Rightarrow> int \<Rightarrow> real list \<Rightarrow> Returns" where
  "Returns_init n_obs nd levy_parameters =
     \<lparr>num_observations = n_obs, ndays = nd, parameters = levy_parameters\<rparr>"

definition generate_1day_returns ::
  "'g sampler \<Rightarrow> Returns \<Rightarrow> 'g world \<Rightarrow> (py_error + real list) \<times> 'g world" where
  "generate_1day_returns rvs self w =
     (case rvs (parameters self) (num_observations self) (rng w) of
        Inl e \<Rightarrow> (Inl e, w)
      | Inr (returns_1day, g) \<Rightarrow> (Inr returns_1day, w\<lparr>rng := g\<rparr>))"

text \<open>
  The body of \<^verbatim>\<open>generate_ndays_returns\<close> after the draw: add one to every one-day
  return, take the product of every window of \<open>ndays\<close> consecutive entries, subtract one.
\<close>

definition compound :: "real list \<Rightarrow> int \<Rightarrow> real list" where
  "compound one_day nd =
     (let returns_1day = map (\<lambda>x. x + 1) one_day;
          num_returns_ndays = int (length returns_1day) - nd + 1;
          returns_ndays =
            map (\<lambda>i. prod_list (py_slice returns_1day i (i + nd))) (py_range num_returns_ndays)
      in map (\<lambda>p. p - 1) returns_ndays)"

definition generate_ndays_returns ::
  "'g sampler \<Rightarrow> Returns \<Rightarrow> 'g world \<Rightarrow> (py_error + real list) \<times> 'g world" where
  "generate_ndays_returns rvs self w =
     (case generate_1day_returns rvs self w of
        (Inl e, w') \<Rightarrow> (Inl e, w')
      | (Inr returns_1day, w') \<Rightarrow> (Inr (compound returns_1day (ndays self)), w'))"

definition default_q_value :: real where
  "default_q_value = 1 / 100"

definition get_percentile ::
  "'g sampler \<Rightarrow> Returns \<Rightarrow> real \<Rightarrow> 'g world \<Rightarrow> (py_error + real) \<times> 'g world" where
  "get_percentile rvs self q_value w =
     (case generate_ndays_returns rvs self w of
        (Inl e, w') \<Rightarrow> (Inl e, w')
      | (Inr returns_ndays, w') \<Rightarrow> (np_percentile returns_ndays q_value, w'))"

subsection \<open>\<^verbatim>\<open>visualize_distribution\<close> and \<^verbatim>\<open>simulate_monte_carlo\<close>\<close>

definition visualize_distribution :: "real list \<Rightarrow> bins \<Rightarrow> string \<Rightarrow> 'g world \<Rightarrow> 'g world" where
  "visualize_distribution data bns title w =
     w\<lparr>plots := plots w @
        [Figure, Title title, XLabel ''Values'', YLabel ''Counts'', Hist data bns, Show]\<rparr>"

text \<open>
  \<^verbatim>\<open>for i in range(k): percentiles.append(returns.get_percentile())\<close>, with \<open>k\<close> the
  number of iterations still to run. An exception leaves the loop at once.
\<close>

fun percentile_loop ::
  "'g sampler \<Rightarrow> Returns \<Rightarrow> nat \<Rightarrow> real list \<Rightarrow> 'g world \<Rightarrow> (py_error + real list) \<times> 'g world" where
  "percentile_loop rvs returns 0 percentiles w = (Inr percentiles, w)"
| "percentile_loop rvs returns (Suc k) percentiles w =
     (case get_percentile rvs returns default_q_value w of
        (Inl e, w') \<Rightarrow> (Inl e, w')
      | (Inr p, w') \<Rightarrow> percentile_loop rvs returns k (percentiles @ [p]) w')"

definition simulate_monte_carlo ::
  "'g sampler \<Rightarrow> int \<Rightarrow> int \<Rightarrow> int \<Rightarrow> 'g world \<Rightarrow> (py_error + real list) \<times> 'g world" where
  "simulate_monte_carlo rvs n_obs nd n_trials w =
     (let returns = Returns_init n_obs nd default_levy_parameters
      in percentile_loop rvs returns (length (py_range n_trials)) [] w)"

subsection \<open>\<^verbatim>\<open>check_monte_carlo_trials\<close>: the CLT method\<close>

definition CLT_MAX_TRIALS :: int where
  "CLT_MAX_TRIALS = 15000"

definition CLT_MAX_SAMPLES :: int where
  "CLT_MAX_SAMPLES = 100"

function clt_loop ::
  "'g sampler \<Rightarrow> Returns \<Rightarrow> int \<Rightarrow> real list \<Rightarrow> real list \<Rightarrow> 'g world
     \<Rightarrow> (py_error + (real list \<times> real list)) \<times> 'g world" where
  "clt_loop rvs returns samples mean std w =
     (if samples < CLT_MAX_SAMPLES then
        (case percentile_loop rvs returns (length (py_range CLT_MAX_TRIALS)) [] w of
           (Inl e, w') \<Rightarrow> (Inl e, w')
         | (Inr percentile, w') \<Rightarrow>
             clt_loop rvs returns (samples + 1)
               (mean @ [np_mean percentile]) (std @ [np_std percentile]) w')
      else (Inr (mean, std), w))"
  by pat_completeness auto
termination
  by (relation "measure (\<lambda>(rvs, returns, samples, mean, std, w). nat (CLT_MAX_SAMPLES - samples))")
    auto

subsection \<open>\<^verbatim>\<open>check_monte_carlo_trials\<close>: the monitoring method\<close>

definition monitoring_MAX_TRIALS :: int where
  "monitoring_MAX_TRIALS = 30000"

record monitoring_state =
  mean_perc :: "real list"
  percentiles :: "real list"
  trial :: int
  trials_trace :: "int list"

function monitoring_loop ::
  "'g sampler \<Rightarrow> Returns \<Rightarrow> monitoring_state \<Rightarrow> 'g world
     \<Rightarrow> (py_error + monitoring_state) \<times> 'g world" where
  "monitoring_loop rvs returns s w =
     (if trial s < monitoring_MAX_TRIALS then
        (case get_percentile rvs returns default_q_value w of
           (Inl e, w') \<Rightarrow> (Inl e, w')
         | (Inr p, w') \<Rightarrow>
             monitoring_loop rvs returns
               \<lparr>mean_perc = mean_perc s @ [np_mean (percentiles s @ [p])],
                percentiles = percentiles s @ [p],
                trial = trial s + 1,
                trials_trace = trials_trace s @ [trial s + 1]\<rparr> w')
      else (Inr s, w))"
  by pat_completeness auto
termination
  by (relation "measure (\<lambda>(rvs, returns, s, w). nat (monitoring_MAX_TRIALS - trial s))") auto

subsection \<open>\<^verbatim>\<open>check_monte_carlo_trials\<close>: the test-statistic method\<close>

definition TRIALS_CAP :: int where
  "TRIALS_CAP = 200000"

record ts_state =
  trials :: int
  p_value :: real
  statistic :: real
  p_list1 :: "real list"
  p_list2 :: "real list"

definition ts_init :: ts_state where
  "ts_init = \<lparr>trials = 0, p_value = 0, statistic = 1000000000, p_list1 = [], p_list2 = []\<rparr>"

text \<open>The loop condition of the \<^verbatim>\<open>while\<close>.\<close>

definition ts_continue :: "real \<Rightarrow> real \<Rightarrow> ts_state \<Rightarrow> bool" where
  "ts_continue significance_level discrepancy s \<longleftrightarrow>
     statistic s > discrepancy \<or> p_value s < significance_level"

text \<open>
  One pass through the body of the \<^verbatim>\<open>while\<close>. The boolean of the result tells
  whether the pass ended in \<^verbatim>\<open>break\<close>.
\<close>

definition ts_body ::
  "'g sampler \<Rightarrow> ks_test \<Rightarrow> Returns \<Rightarrow> ts_state \<Rightarrow> 'g world
     \<Rightarrow> (py_error + (ts_state \<times> bool)) \<times> 'g world" where
  "ts_body rvs ks_2samp returns s w =
     (let t = trials s + 1 in
      case get_percentile rvs returns default_q_value w of
        (Inl e, w1) \<Rightarrow> (Inl e, w1)
      | (Inr a, w1) \<Rightarrow>
     (case get_percentile rvs returns default_q_value w1 of
        (Inl e, w2) \<Rightarrow> (Inl e, w2)
      | (Inr b, w2) \<Rightarrow>
          let l1 = p_list1 s @ [a];
              l2 = p_list2 s @ [b];
              s1 = s\<lparr>trials := t, p_list1 := l1, p_list2 := l2\<rparr>;
              (s2, w3) =
                (if t mod 100 = 0 then
                   (let (st, pv) = ks_2samp l1 l2
                    in (s1\<lparr>statistic := st, p_value := pv\<rparr>,
                        w2\<lparr>stdout := stdout w2 @ [StatisticLine st pv t]\<rparr>))
                 else (s1, w2))
          in if t > TRIALS_CAP
             then (Inr (s2, True), w3\<lparr>stdout := stdout w3 @ [SimulationFailed]\<rparr>)
             else (Inr (s2, False), w3)))"

function ts_loop ::
  "'g sampler \<Rightarrow> ks_test \<Rightarrow> Returns \<Rightarrow> real \<Rightarrow> real \<Rightarrow> ts_state \<Rightarrow> 'g world
     \<Rightarrow> (py_error + ts_state) \<times> 'g world" where
  "ts_loop rvs ks_2samp returns significance_level discrepancy s w =
     (if ts_continue significance_level discrepancy s then
        (case ts_body rvs ks_2samp returns s w of
           (Inl e, w') \<Rightarrow> (Inl e, w')
         | (Inr (s', broke), w') \<Rightarrow>
             if broke then (Inr s', w')
             else ts_loop rvs ks_2samp returns significance_level discrepancy s' w')
      else (Inr s, w))"
  by pat_completeness auto
termination
  by (relation "measure (\<lambda>(rvs, ks_2samp, returns, significance_level, discrepancy, s, w).
                  nat (TRIALS_CAP + 1 - trials s))")
    (auto simp: ts_body_def Let_def split: prod.splits sum.splits if_splits)

subsection \<open>\<^verbatim>\<open>check_monte_carlo_trials\<close>\<close>

text \<open>
  The second component of the returned pair is an integer for two of the methods and a
  list of integers for the third.
\<close>

datatype trials_value = Count int | Trace "int list"

text \<open>\<open>None\<close> is Python's \<^verbatim>\<open>None\<close>: the function ran off its end.\<close>

definition check_monte_carlo_trials ::
  "'g sampler \<Rightarrow> ks_test \<Rightarrow> string \<Rightarrow> int \<Rightarrow> int \<Rightarrow> real \<Rightarrow> real \<Rightarrow> 'g world
     \<Rightarrow> (py_error + (real list \<times> trials_value) option) \<times> 'g world" where
  "check_monte_carlo_trials rvs ks_2samp method n_obs nd significance_level discrepancy w =
     (let returns = Returns_init n_obs nd default_levy_parameters in
      if method = ''CLT'' then
        (case clt_loop rvs returns 0 [] [] w of
           (Inl e, w') \<Rightarrow> (Inl e, w')
         | (Inr (mean, std), w') \<Rightarrow>
             (Inr (Some (mean, Count CLT_MAX_TRIALS)),
              w'\<lparr>plots := plots w' @
                 [Hist mean (BinEdges (np_arange (- 400000) (- 200000) 5000)),
                  Title ''Distribution of percentile means'',
                  XLabel ''Values'', YLabel ''Count'', Show]\<rparr>))
      else if method = ''monitoring'' then
        (case monitoring_loop rvs returns
                \<lparr>mean_perc = [], percentiles = [], trial = 0, trials_trace = []\<rparr> w of
           (Inl e, w') \<Rightarrow> (Inl e, w')
         | (Inr s, w') \<Rightarrow>
             (Inr (Some (mean_perc s, Trace (trials_trace s))),
              w'\<lparr>plots := plots w' @
                 [Plot (trials_trace s) (mean_perc s),
                  Title ''Value of percentiles mean '',
                  XLabel ''Trials'', YLabel ''Means'', Legend, Show]\<rparr>))
      else if method = ''test_statistic'' then
        (case ts_loop rvs ks_2samp returns significance_level discrepancy ts_init w of
           (Inl e, w') \<Rightarrow> (Inl e, w')
         | (Inr s, w') \<Rightarrow> (Inr (Some (p_list1 s @ p_list2 s, Count (trials s))), w'))
      else (Inr None, w))"

subsection \<open>The quantile of the specification\<close>

text \<open>
  The quantile as the specification words it: \<open>q\<close> is a probability between 0 and 1, and
  the value at the fractional position \<open>(n - 1) * q\<close> of the sorted series is interpolated
  linearly between the two neighbouring order statistics.
\<close>

definition spec_quantile :: "real list \<Rightarrow> real \<Rightarrow> real" where
  "spec_quantile series q =
     (let arr = sort series;
          n = length arr;
          position = real (n - 1) * q;
          below = nat \<lfloor>position\<rfloor>;
          above = min (below + 1) (n - 1)
      in arr ! below + (position - real below) * (arr ! above - arr ! below))"

subsection \<open>A concrete generator and concrete tests for running the model\<close>

text \<open>
  A generator whose state is the sequence of values it is going to deliver: a draw of
  \<open>n\<close> values hands out the first \<open>n\<close> of them and moves on. A negative size is
  rejected.
\<close>

definition stream_rvs :: "(nat \<Rightarrow> real) sampler" where
  "stream_rvs params n g =
     (if n < 0 then Inl ValueError
      else Inr (map g [0..<nat n], \<lambda>i. g (i + nat n)))"

definition start_world :: "'g \<Rightarrow> 'g world" where
  "start_world g = \<lparr>rng = g, plots = [], stdout = []\<rparr>"

text \<open>A two-sample test that reports the same statistic and p-value whatever the samples.\<close>

definition ks_const :: "real \<Rightarrow> real \<Rightarrow> ks_test" where
  "ks_const st pv a b = (st, pv)"

subsection \<open>The compounding step in float64 arithmetic\<close>

text \<open>
  A float64 number is a mantissa and an exponent, standing for \<open>m * 2 ^ e\<close>. Every
  arithmetic operation computes its exact result and rounds the mantissa to 53
  significant bits, ties to the even neighbour, as IEEE 754 binary64 does in its default
  rounding mode. The exponent is unbounded: overflow, subnormal numbers, infinities and NaN
  are outside the model. Two floats are equal when their values are.
\<close>

datatype f64 = F64 int int

fun f64_val :: "f64 \<Rightarrow> real" where
  "f64_val (F64 m e) =
     (if 0 \<le> e then real_of_int m * 2 ^ nat e else real_of_int m / 2 ^ nat (- e))"

text \<open>The number of binary digits of a natural number.\<close>

fun bit_length :: "nat \<Rightarrow> nat" where
  "bit_length n = (if n = 0 then 0 else Suc (bit_length (n div 2)))"

declare bit_length.simps [simp del]

text \<open>
  \<open>m / 2 ^ k\<close> rounded to the nearest integer, a tie going to the even one.
\<close>

definition round_nearest_even :: "int \<Rightarrow> nat \<Rightarrow> int" where
  "round_nearest_even m k =
     (let q = m div 2 ^ k; r = m mod 2 ^ k; half = 2 ^ (k - 1)
      in if r < half then q else if half < r then q + 1 else if even q then q else q + 1)"

definition f64_round :: "int \<Rightarrow> int \<Rightarrow> f64" where
  "f64_round m e =
     (let n = bit_length (nat \<bar>m\<bar>)
      in if n \<le> 53 then F64 m e
         else F64 (round_nearest_even m (n - 53)) (e + int (n - 53)))"

fun f64_add :: "f64 \<Rightarrow> f64 \<Rightarrow> f64" where
  "f64_add (F64 m1 e1) (F64 m2 e2) =
     (let e = min e1 e2 in f64_round (m1 * 2 ^ nat (e1 - e) + m2 * 2 ^ nat (e2 - e)) e)"

fun f64_sub :: "f64 \<Rightarrow> f64 \<Rightarrow> f64" where
  "f64_sub (F64 m1 e1) (F64 m2 e2) =
     (let e = min e1 e2 in f64_round (m1 * 2 ^ nat (e1 - e) - m2 * 2 ^ nat (e2 - e)) e)"

fun f64_mul :: "f64 \<Rightarrow> f64 \<Rightarrow> f64" where
  "f64_mul (F64 m1 e1) (F64 m2 e2) = f64_round (m1 * m2) (e1 + e2)"

definition f64_one :: f64 where
  "f64_one = F64 1 0"

text \<open>\<^verbatim>\<open>np.prod\<close>: the empty product is one.\<close>

definition f64_prod :: "f64 list \<Rightarrow> f64" where
  "f64_prod xs = foldl f64_mul f64_one xs"

text \<open>
  The body of \<^verbatim>\<open>generate_ndays_returns\<close> after the draw once more, now with the
  float64 operations numpy performs in place of exact arithmetic.
\<close>

definition compound_f64 :: "f64 list \<Rightarrow> int \<Rightarrow> f64 list" where
  "compound_f64 one_day nd =
     (let returns_1day = map (\<lambda>x. f64_add x f64_one) one_day;
          num_returns_ndays = int (length returns_1day) - nd + 1;
          returns_ndays =
            map (\<lambda>i. f64_prod (py_slice returns_1day i (i + nd))) (py_range num_returns_ndays)
      in map (\<lambda>p. f64_sub p f64_one) returns_ndays)"

section \<open>Compounding\<close>

lemma length_compound: "length (compound xs nd) = nat (int (length xs) - nd + 1)"
  by (simp add: compound_def py_range_def)

lemma py_slice_window1:
  "i < length xs \<Longrightarrow> py_slice xs (int i) (int i + 1) = [xs ! i]"
  by (simp add: py_slice_def Let_def take_Suc_conv_app_nth nat_add_distrib)

lemma compound_1: "compound xs 1 = xs"
  by (rule nth_equalityI) (simp_all add: compound_def py_range_def py_slice_window1)

text \<open>
  Claim C6. For a window \<open>ndays \<ge> 1\<close> and a draw that delivered a one-day series of
  length \<open>L\<close>, \<^verbatim>\<open>generate_ndays_returns\<close> returns normally, its result is the compounded
  series, and that series has exactly \<open>max 0 (L - ndays + 1)\<close> entries; when \<open>ndays > L\<close>
  it is the empty series and no exception is raised.
\<close>

theorem generate_ndays_returns_length:
  assumes "1 \<le> ndays self"
    and "rvs (parameters self) (num_observations self) (rng w) = Inr (one_day, g)"
  shows "generate_ndays_returns rvs self w = (Inr (compound one_day (ndays self)), w\<lparr>rng := g\<rparr>) \<and>
         int (length (compound one_day (ndays self))) =
           max 0 (int (length one_day) - ndays self + 1) \<and>
         (int (length one_day) < ndays self \<longrightarrow> compound one_day (ndays self) = [])"
proof -
  have "generate_ndays_returns rvs self w = (Inr (compound one_day (ndays self)), w\<lparr>rng := g\<rparr>)"
    using assms(2) by (simp add: generate_ndays_returns_def generate_1day_returns_def)
  moreover have "int (length (compound one_day (ndays self))) =
      max 0 (int (length one_day) - ndays self + 1)"
    by (simp add: length_compound)
  moreover have "int (length one_day) < ndays self \<longrightarrow> compound one_day (ndays self) = []"
  proof
    assume "int (length one_day) < ndays self"
    then have "length (compound one_day (ndays self)) = 0"
      by (simp add: length_compound)
    then show "compound one_day (ndays self) = []" by simp
  qed
  ultimately show ?thesis by blast
qed

text \<open>
  The theorem at work: three observations \<open>0, 1, 2\<close> with a window of two days give the
  two returns \<open>1 * 2 - 1\<close> and \<open>2 * 3 - 1\<close>; with a window of five days they give none.
\<close>

theorem generate_ndays_returns_length_witness:
  "generate_ndays_returns stream_rvs (Returns_init 3 2 default_levy_parameters) (start_world real) =
     (Inr [1, 5], (start_world real)\<lparr>rng := \<lambda>i. real (i + 3)\<rparr>) \<and>
   int (length (compound [0, 1, 2] 2)) = 2 \<and>
   generate_ndays_returns stream_rvs (Returns_init 3 5 default_levy_parameters) (start_world real) =
     (Inr [], (start_world real)\<lparr>rng := \<lambda>i. real (i + 3)\<rparr>)"
proof -
  have c2: "compound [0, 1, 2] 2 = [1, 5]"
    by (simp add: compound_def py_range_def py_slice_def eval_nat_numeral)
  have d: "stream_rvs (parameters (Returns_init 3 nd default_levy_parameters))
             (num_observations (Returns_init 3 nd default_levy_parameters))
             (rng (start_world real)) = Inr ([0, 1, 2], \<lambda>i. real (i + 3))" for nd
    by (simp add: stream_rvs_def Returns_init_def start_world_def eval_nat_numeral)
  have n2: "1 \<le> ndays (Returns_init 3 2 default_levy_parameters)"
    and n5: "1 \<le> ndays (Returns_init 3 5 default_levy_parameters)"
    by (simp_all add: Returns_init_def)
  show ?thesis
    using generate_ndays_returns_length [where rvs = stream_rvs and w = "start_world real", OF n2 d]
      generate_ndays_returns_length [where rvs = stream_rvs and w = "start_world real", OF n5 d]
    by (simp add: Returns_init_def c2)
qed

declare ts_loop.simps [simp del]

section \<open>The test-statistic loop\<close>

text \<open>
  \<^verbatim>\<open>get_percentile\<close> touches nothing of the world but the generator.
\<close>

lemma get_percentile_frame:
  "get_percentile rvs self q w = (r, w') \<Longrightarrow> plots w' = plots w \<and> stdout w' = stdout w"
  by (auto simp: get_percentile_def generate_ndays_returns_def generate_1day_returns_def
      split: sum.splits prod.splits)

lemma ts_loop_stop:
  "\<not> ts_continue sl d s \<Longrightarrow> ts_loop rvs ks r sl d s w = (Inr s, w)"
  by (simp add: ts_loop.simps)

lemma ts_loop_err:
  "ts_continue sl d s \<Longrightarrow> ts_body rvs ks r s w = (Inl e, w') \<Longrightarrow>
   ts_loop rvs ks r sl d s w = (Inl e, w')"
  by (simp add: ts_loop.simps)

lemma ts_loop_break:
  "ts_continue sl d s \<Longrightarrow> ts_body rvs ks r s w = (Inr (s', True), w') \<Longrightarrow>
   ts_loop rvs ks r sl d s w = (Inr s', w')"
  by (simp add: ts_loop.simps)

lemma ts_loop_step:
  "ts_continue sl d s \<Longrightarrow> ts_body rvs ks r s w = (Inr (s', False), w') \<Longrightarrow>
   ts_loop rvs ks r sl d s w = ts_loop rvs ks r sl d s' w'"
  by (simp add: ts_loop.simps)

lemma ts_loop_cases [case_names stop err break step]:
  assumes "\<And>s w. \<not> ts_continue sl d s \<Longrightarrow> P s w"
    and "\<And>s w e w'. ts_continue sl d s \<Longrightarrow> ts_body rvs ks r s w = (Inl e, w') \<Longrightarrow> P s w"
    and "\<And>s w s' w'. ts_continue sl d s \<Longrightarrow> ts_body rvs ks r s w = (Inr (s', True), w') \<Longrightarrow> P s w"
    and "\<And>s w s' w'. ts_continue sl d s \<Longrightarrow> ts_body rvs ks r s w = (Inr (s', False), w') \<Longrightarrow>
           P s' w' \<Longrightarrow> P s w"
  shows "P s w"
  using assms
proof (induction rvs ks r sl d s w rule: ts_loop.induct)
  case (1 rvs ks r sl d s w)
  show ?case
  proof (cases "ts_continue sl d s")
    case False
    then show ?thesis by (rule "1.prems"(1))
  next
    case True
    obtain res w' where b: "ts_body rvs ks r s w = (res, w')"
      by (cases "ts_body rvs ks r s w")
    show ?thesis
    proof (cases res)
      case (Inl e)
      with True b show ?thesis by (auto intro: "1.prems"(2))
    next
      case (Inr p)
      obtain s' broke where p: "p = (s', broke)" by (cases p)
      show ?thesis
      proof (cases broke)
        case True
        with \<open>ts_continue sl d s\<close> b Inr p show ?thesis by (auto intro: "1.prems"(3))
      next
        case False
        have "P s' w'"
          using "1.IH" [OF \<open>ts_continue sl d s\<close> b [symmetric] Inr p [symmetric]] False "1.prems" 
          by blast
        with \<open>ts_continue sl d s\<close> b Inr p False show ?thesis by (auto intro: "1.prems"(4))
      qed
    qed
  qed
qed

lemma ts_body_InrE:
  assumes "ts_body rvs ks r s w = (Inr (s', broke), w')"
  obtains a w1 b w2 where
    "get_percentile rvs r default_q_value w = (Inr a, w1)"
    "get_percentile rvs r default_q_value w1 = (Inr b, w2)"
    "trials s' = trials s + 1"
    "p_list1 s' = p_list1 s @ [a]"
    "p_list2 s' = p_list2 s @ [b]"
    "broke \<longleftrightarrow> trials s + 1 > TRIALS_CAP"
    "(trials s + 1) mod 100 \<noteq> 0 \<Longrightarrow> statistic s' = statistic s \<and> p_value s' = p_value s"
    "(trials s + 1) mod 100 = 0 \<Longrightarrow>
       (statistic s', p_value s') = ks (p_list1 s @ [a]) (p_list2 s @ [b])"
    "rng w' = rng w2" "plots w' = plots w2"
    "stdout w' = stdout w2 @
       (if (trials s + 1) mod 100 = 0
        then [StatisticLine (statistic s') (p_value s') (trials s + 1)] else []) @
       (if broke then [SimulationFailed] else [])"
  using assms
  by (auto simp: ts_body_def Let_def split: prod.splits sum.splits if_splits)

lemma ts_body_plots:
  assumes "ts_body rvs ks r s w = (res, w')"
  shows "plots w' = plots w"
  using assms
  by (auto simp: ts_body_def Let_def split: prod.splits sum.splits if_splits
      dest!: get_percentile_frame)

lemma ts_loop_exit:
  assumes "ts_loop rvs ks r sl d s w = (Inr s', w')"
  shows "\<not> ts_continue sl d s' \<or> trials s' > TRIALS_CAP"
  using assms
proof (induction s w rule: ts_loop_cases [where sl = sl and d = d and rvs = rvs and ks = ks and r = r])
  case (stop s w)
  then show ?case by (simp add: ts_loop_stop)
next
  case (err s w e w1)
  then show ?case by (simp add: ts_loop_err)
next
  case (break s w s1 w1)
  from break(2) have "trials s1 > TRIALS_CAP"
    by (elim ts_body_InrE) simp
  with break show ?case by (simp add: ts_loop_break)
next
  case (step s w s1 w1)
  then show ?case by (simp add: ts_loop_step)
qed

lemma ts_loop_progress:
  assumes "ts_loop rvs ks r sl d s w = (Inr s', w')"
  shows "trials s \<le> trials s' \<and> (ts_continue sl d s \<longrightarrow> trials s < trials s')"
  using assms
proof (induction s w rule: ts_loop_cases [where sl = sl and d = d and rvs = rvs and ks = ks and r = r])
  case (stop s w)
  then show ?case by (simp add: ts_loop_stop)
next
  case (err s w e w1)
  then show ?case by (simp add: ts_loop_err)
next
  case (break s w s1 w1)
  from break(2) have "trials s1 = trials s + 1"
    by (elim ts_body_InrE)
  with break show ?case by (simp add: ts_loop_break)
next
  case (step s w s1 w1)
  from step(2) have "trials s1 = trials s + 1"
    by (elim ts_body_InrE)
  with step show ?case by (simp add: ts_loop_step)
qed

lemma ts_loop_lists:
  assumes "ts_loop rvs ks r sl d s w = (Inr s', w')"
  shows "\<exists>l1 l2. p_list1 s' = p_list1 s @ l1 \<and> p_list2 s' = p_list2 s @ l2 \<and>
           int (length l1) = trials s' - trials s \<and> int (length l2) = trials s' - trials s"
  using assms
proof (induction s w rule: ts_loop_cases [where sl = sl and d = d and rvs = rvs and ks = ks and r = r])
  case (stop s w)
  then show ?case by (simp add: ts_loop_stop)
next
  case (err s w e w1)
  then show ?case by (simp add: ts_loop_err)
next
  case (break s w s1 w1)
  from break(2) obtain a b where "trials s1 = trials s + 1"
    "p_list1 s1 = p_list1 s @ [a]" "p_list2 s1 = p_list2 s @ [b]"
    by (elim ts_body_InrE)
  with break show ?case by (simp add: ts_loop_break)
next
  case (step s w s1 w1)
  from step(2) obtain a b where s1: "trials s1 = trials s + 1"
    "p_list1 s1 = p_list1 s @ [a]" "p_list2 s1 = p_list2 s @ [b]"
    by (elim ts_body_InrE)
  from step have "ts_loop rvs ks r sl d s1 w1 = (Inr s', w')"
    by (simp add: ts_loop_step)
  from step.IH [OF this] obtain l1 l2 where
    "p_list1 s' = p_list1 s1 @ l1" "p_list2 s' = p_list2 s1 @ l2"
    "int (length l1) = trials s' - trials s1" "int (length l2) = trials s' - trials s1"
    by blast
  with s1 have "p_list1 s' = p_list1 s @ (a # l1) \<and> p_list2 s' = p_list2 s @ (b # l2) \<and>
     int (length (a # l1)) = trials s' - trials s \<and> int (length (b # l2)) = trials s' - trials s"
    by simp
  then show ?case by blast
qed

lemma ts_loop_cap:
  assumes "ts_loop rvs ks r sl d s w = (Inr s', w')" and "trials s \<le> TRIALS_CAP"
  shows "trials s' \<le> TRIALS_CAP + 1 \<and> (ts_continue sl d s' \<longleftrightarrow> trials s' = TRIALS_CAP + 1) \<and>
         (trials s' = TRIALS_CAP + 1 \<longrightarrow> stdout w' \<noteq> [] \<and> last (stdout w') = SimulationFailed)"
  using assms
proof (induction s w rule: ts_loop_cases [where sl = sl and d = d and rvs = rvs and ks = ks and r = r])
  case (stop s w)
  then show ?case by (simp add: ts_loop_stop)
next
  case (err s w e w1)
  then show ?case by (simp add: ts_loop_err)
next
  case (break s w s1 w1)
  from break(2) have t: "trials s1 = trials s + 1" and c: "trials s + 1 > TRIALS_CAP"
    and st: "(trials s + 1) mod 100 \<noteq> 0 \<Longrightarrow> statistic s1 = statistic s \<and> p_value s1 = p_value s"
    and out: "stdout w1 \<noteq> [] \<and> last (stdout w1) = SimulationFailed"
    by (elim ts_body_InrE; simp)+
  from c break.prems(2) have eq: "trials s = TRIALS_CAP" by simp
  then have "(trials s + 1) mod 100 \<noteq> 0" by (simp add: TRIALS_CAP_def)
  from st [OF this] break(1) have "ts_continue sl d s1" by (simp add: ts_continue_def)
  with break t eq out show ?case by (simp add: ts_loop_break)
next
  case (step s w s1 w1)
  from step(2) have "trials s1 = trials s + 1" "\<not> trials s + 1 > TRIALS_CAP"
    by (elim ts_body_InrE; simp)+
  with step show ?case by (simp add: ts_loop_step)
qed

lemma ts_loop_plots:
  assumes "ts_loop rvs ks r sl d s w = (res, w')"
  shows "plots w' = plots w"
  using assms
proof (induction s w rule: ts_loop_cases [where sl = sl and d = d and rvs = rvs and ks = ks and r = r])
  case (stop s w)
  then show ?case by (simp add: ts_loop_stop)
next
  case (err s w e w1)
  then show ?case by (auto simp: ts_loop_err dest: ts_body_plots)
next
  case (break s w s1 w1)
  then show ?case by (auto simp: ts_loop_break dest: ts_body_plots)
next
  case (step s w s1 w1)
  then show ?case by (auto simp: ts_loop_step dest: ts_body_plots)
qed

section \<open>Runs in which no draw raises\<close>

text \<open>
  Facts about the loops: what they leave untouched, how many values they collect, and
  that they return normally when \<^verbatim>\<open>get_percentile\<close> never raises.
\<close>

lemma get_percentile_rng:
  "rng w1 = rng w2 \<Longrightarrow>
   fst (get_percentile rvs self q w1) = fst (get_percentile rvs self q w2) \<and>
   rng (snd (get_percentile rvs self q w1)) = rng (snd (get_percentile rvs self q w2))"
  by (auto simp: get_percentile_def generate_ndays_returns_def generate_1day_returns_def
      split: sum.splits prod.splits)

lemma np_percentile_ok:
  "a \<noteq> [] \<Longrightarrow> 0 \<le> q \<Longrightarrow> q \<le> 100 \<Longrightarrow> np_percentile a q = Inr (spec_quantile a (q / 100))"
  by (simp add: np_percentile_def spec_quantile_def Let_def)

lemma get_percentile_ok:
  assumes "rvs (parameters self) (num_observations self) (rng w) = Inr (xs, g)"
    and "int (length xs) = num_observations self"
    and "1 \<le> ndays self" and "ndays self \<le> num_observations self"
    and "0 \<le> q" and "q \<le> 100"
  shows "get_percentile rvs self q w =
           (Inr (spec_quantile (compound xs (ndays self)) (q / 100)), w\<lparr>rng := g\<rparr>)"
proof -
  have "length (compound xs (ndays self)) \<noteq> 0"
    using assms(2-4) by (simp add: length_compound)
  then have "compound xs (ndays self) \<noteq> []" by simp
  then show ?thesis
    using assms
    by (simp add: get_percentile_def generate_ndays_returns_def generate_1day_returns_def
        np_percentile_ok)
qed

lemma percentile_loop_frame:
  "percentile_loop rvs r k acc w = (res, w') \<Longrightarrow> plots w' = plots w \<and> stdout w' = stdout w"
proof (induction k arbitrary: acc w)
  case 0
  then show ?case by simp
next
  case (Suc k)
  then show ?case
    by (auto split: prod.splits sum.splits dest!: get_percentile_frame)
qed

lemma percentile_loop_total:
  assumes H: "\<And>w. \<exists>p w'. get_percentile rvs r default_q_value w = (Inr p, w')"
  shows "\<exists>ps w'. percentile_loop rvs r k acc w = (Inr ps, w') \<and> length ps = length acc + k"
proof (induction k arbitrary: acc w)
  case 0
  then show ?case by simp
next
  case (Suc k)
  from H obtain p w1 where g: "get_percentile rvs r default_q_value w = (Inr p, w1)" by blast
  from Suc [of "acc @ [p]" w1] g show ?case by auto
qed

lemma percentile_loop_length:
  "percentile_loop rvs r k acc w = (Inr ps, w') \<Longrightarrow> length ps = length acc + k"
proof (induction k arbitrary: acc w)
  case 0
  then show ?case by simp
next
  case (Suc k)
  then show ?case by (fastforce split: prod.splits sum.splits)
qed

lemma clt_loop_frame:
  "clt_loop rvs r samples mean std w = (res, w') \<Longrightarrow> plots w' = plots w \<and> stdout w' = stdout w"
proof (induction rvs r samples mean std w rule: clt_loop.induct)
  case (1 rvs r samples mean std w)
  show ?case
  proof (cases "samples < CLT_MAX_SAMPLES")
    case False
    with "1.prems" show ?thesis by simp
  next
    case True
    obtain x w1 where p: "percentile_loop rvs r (length (py_range CLT_MAX_TRIALS)) [] w = (x, w1)"
      by (cases "percentile_loop rvs r (length (py_range CLT_MAX_TRIALS)) [] w")
    note f = percentile_loop_frame [OF p]
    show ?thesis
    proof (cases x)
      case (Inl e)
      with True p "1.prems" f show ?thesis by simp
    next
      case (Inr pc)
      with True p "1.prems" have "clt_loop rvs r (samples + 1) (mean @ [np_mean pc])
         (std @ [np_std pc]) w1 = (res, w')" by simp
      from "1.IH" [OF True p [symmetric] Inr this] f show ?thesis by simp
    qed
  qed
qed

declare clt_loop.simps [simp del] monitoring_loop.simps [simp del]

lemma clt_loop_total:
  assumes H: "\<And>w. \<exists>p w'. get_percentile rvs r default_q_value w = (Inr p, w')"
  shows "\<exists>m s w'. clt_loop rvs r samples mean std w = (Inr (m, s), w')"
proof (induction "nat (CLT_MAX_SAMPLES - samples)" arbitrary: samples mean std w)
  case 0
  then have "\<not> samples < CLT_MAX_SAMPLES" by simp
  then show ?case by (simp add: clt_loop.simps)
next
  case (Suc n)
  then have lt: "samples < CLT_MAX_SAMPLES" and n: "n = nat (CLT_MAX_SAMPLES - (samples + 1))"
    by simp_all
  from percentile_loop_total [of rvs r, OF H] obtain pc w1 where
    p: "percentile_loop rvs r (length (py_range CLT_MAX_TRIALS)) [] w = (Inr pc, w1)"
    by blast
  from Suc.hyps(1) [OF n, of "mean @ [np_mean pc]" "std @ [np_std pc]" w1] lt p
  show ?case by (simp add: clt_loop.simps [of rvs r samples])
qed

lemma monitoring_loop_frame:
  "monitoring_loop rvs r s w = (res, w') \<Longrightarrow> plots w' = plots w \<and> stdout w' = stdout w"
proof (induction "nat (monitoring_MAX_TRIALS - trial s)" arbitrary: s w)
  case 0
  then have "\<not> trial s < monitoring_MAX_TRIALS" by simp
  with "0.prems" show ?case by (simp add: monitoring_loop.simps)
next
  case (Suc n)
  then have lt: "trial s < monitoring_MAX_TRIALS" by simp
  obtain x w1 where g: "get_percentile rvs r default_q_value w = (x, w1)"
    by (cases "get_percentile rvs r default_q_value w")
  note f = get_percentile_frame [OF g]
  show ?case
  proof (cases x)
    case (Inl e)
    with lt g Suc.prems f show ?thesis by (simp add: monitoring_loop.simps [of rvs r s])
  next
    case (Inr p)
    let ?s = "\<lparr>mean_perc = mean_perc s @ [np_mean (percentiles s @ [p])],
                percentiles = percentiles s @ [p],
                trial = trial s + 1,
                trials_trace = trials_trace s @ [trial s + 1]\<rparr>"
    from Suc.hyps(2) have n: "n = nat (monitoring_MAX_TRIALS - trial ?s)" by simp
    from Inr lt g Suc.prems have "monitoring_loop rvs r ?s w1 = (res, w')"
      by (simp add: monitoring_loop.simps [of rvs r s])
    from Suc.hyps(1) [OF n this] f show ?thesis by simp
  qed
qed

lemma monitoring_loop_total:
  assumes H: "\<And>w. \<exists>p w'. get_percentile rvs r default_q_value w = (Inr p, w')"
  shows "\<exists>s' w'. monitoring_loop rvs r s w = (Inr s', w')"
proof (induction "nat (monitoring_MAX_TRIALS - trial s)" arbitrary: s w)
  case 0
  then have "\<not> trial s < monitoring_MAX_TRIALS" by simp
  then show ?case by (simp add: monitoring_loop.simps)
next
  case (Suc n)
  then have lt: "trial s < monitoring_MAX_TRIALS" by simp
  from H obtain p w1 where g: "get_percentile rvs r default_q_value w = (Inr p, w1)" by blast
  let ?s = "\<lparr>mean_perc = mean_perc s @ [np_mean (percentiles s @ [p])],
              percentiles = percentiles s @ [p],
              trial = trial s + 1,
              trials_trace = trials_trace s @ [trial s + 1]\<rparr>"
  from Suc.hyps(2) have n: "n = nat (monitoring_MAX_TRIALS - trial ?s)" by simp
  from Suc.hyps(1) [OF n, of w1] lt g show ?case
    by (simp add: monitoring_loop.simps [of rvs r s])
qed

lemma ts_body_total:
  assumes H: "\<And>w. \<exists>p w'. get_percentile rvs r default_q_value w = (Inr p, w')"
  shows "\<exists>s' b w'. ts_body rvs ks r s w = (Inr (s', b), w')"
proof -
  from H obtain a w1 where a: "get_percentile rvs r default_q_value w = (Inr a, w1)" by blast
  from H obtain b w2 where b: "get_percentile rvs r default_q_value w1 = (Inr b, w2)" by blast
  show ?thesis
    by (auto simp: ts_body_def a b Let_def split: prod.splits)
qed

lemma ts_loop_total:
  assumes H: "\<And>w. \<exists>p w'. get_percentile rvs r default_q_value w = (Inr p, w')"
  shows "\<exists>s' w'. ts_loop rvs ks r sl d s w = (Inr s', w')"
proof (induction s w rule: ts_loop_cases [where sl = sl and d = d and rvs = rvs and ks = ks and r = r])
  case (stop s w)
  then show ?case by (simp add: ts_loop_stop)
next
  case (err s w e w1)
  with ts_body_total [of rvs r ks s w, OF H] show ?case by simp
next
  case (break s w s1 w1)
  then show ?case by (simp add: ts_loop_break)
next
  case (step s w s1 w1)
  then show ?case by (simp add: ts_loop_step)
qed

section \<open>The generator that delivers zeros only\<close>

text \<open>
  With one observation and a window of one day every percentile is the value drawn, and
  the generator that always delivers zero is left as it was.
\<close>

lemma world_rng_fix: "rng w = g \<Longrightarrow> w\<lparr>rng := g\<rparr> = w"
  by auto

lemma np_percentile_single: "np_percentile [v] default_q_value = Inr v"
  by (simp add: np_percentile_def default_q_value_def)

lemma zero_get_percentile:
  "rng w = (\<lambda>i. 0) \<Longrightarrow>
   get_percentile stream_rvs (Returns_init 1 1 ps) default_q_value w = (Inr 0, w)"
  by (simp add: get_percentile_def generate_ndays_returns_def generate_1day_returns_def
      stream_rvs_def Returns_init_def compound_1 np_percentile_single world_rng_fix)

lemma zero_ts_body:
  "rng w = (\<lambda>i. 0) \<Longrightarrow>
   ts_body stream_rvs (ks_const st pv) (Returns_init 1 1 ps) s w =
     (let t = trials s + 1;
          s1 = s\<lparr>trials := t, p_list1 := p_list1 s @ [0], p_list2 := p_list2 s @ [0]\<rparr>;
          s2 = (if t mod 100 = 0 then s1\<lparr>statistic := st, p_value := pv\<rparr> else s1);
          w3 = (if t mod 100 = 0 then w\<lparr>stdout := stdout w @ [StatisticLine st pv t]\<rparr> else w)
      in if t > TRIALS_CAP then (Inr (s2, True), w3\<lparr>stdout := stdout w3 @ [SimulationFailed]\<rparr>)
         else (Inr (s2, False), w3))"
  by (simp add: ts_body_def zero_get_percentile ks_const_def Let_def)

text \<open>
  When the two-sample test keeps reporting values that fail the stopping rule, the loop
  over the zero generator runs into the cap.
\<close>

lemma zero_never_converges:
  assumes "st > d \<or> pv < sl"
  shows "rng w = (\<lambda>i. 0) \<Longrightarrow> ts_continue sl d s \<Longrightarrow> trials s \<le> TRIALS_CAP \<Longrightarrow>
     (\<exists>s' w'. ts_loop stream_rvs (ks_const st pv) (Returns_init 1 1 ps) sl d s w = (Inr s', w') \<and>
        trials s' = TRIALS_CAP + 1 \<and>
        p_list1 s' = p_list1 s @ replicate (nat (TRIALS_CAP + 1 - trials s)) 0 \<and>
        p_list2 s' = p_list2 s @ replicate (nat (TRIALS_CAP + 1 - trials s)) 0)"
proof (induction s w rule: ts_loop_cases [where sl = sl and d = d and rvs = stream_rvs
      and ks = "ks_const st pv" and r = "Returns_init 1 1 ps"])
  case (stop s w)
  then show ?case by simp
next
  case (err s w e w1)
  then show ?case by (simp add: zero_ts_body Let_def split: if_splits)
next
  case (break s w s1 w1)
  from break(2,3,5) have "trials s = TRIALS_CAP"
    and "trials s1 = TRIALS_CAP + 1"
    and "p_list1 s1 = p_list1 s @ [0]" and "p_list2 s1 = p_list2 s @ [0]"
    by (auto simp: zero_ts_body Let_def split: if_splits)
  with break show ?case by (simp add: ts_loop_break)
next
  case (step s w s1 w1)
  from step(2,4) have t: "trials s1 = trials s + 1" and le: "trials s1 \<le> TRIALS_CAP"
    and l: "p_list1 s1 = p_list1 s @ [0]" "p_list2 s1 = p_list2 s @ [0]"
    and w1: "rng w1 = (\<lambda>i. 0)"
    and c: "(statistic s1 = statistic s \<and> p_value s1 = p_value s) \<or>
            (statistic s1 = st \<and> p_value s1 = pv)"
    by (auto simp: zero_ts_body Let_def split: if_splits)
  from c step(1) assms have "ts_continue sl d s1" by (auto simp: ts_continue_def)
  from step.IH [OF w1 this le] obtain s' w' where
    r: "ts_loop stream_rvs (ks_const st pv) (Returns_init 1 1 ps) sl d s1 w1 = (Inr s', w')"
    and f: "trials s' = TRIALS_CAP + 1"
      "p_list1 s' = p_list1 s1 @ replicate (nat (TRIALS_CAP + 1 - trials s1)) 0"
      "p_list2 s' = p_list2 s1 @ replicate (nat (TRIALS_CAP + 1 - trials s1)) 0"
    by blast
  have "nat (TRIALS_CAP + 1 - trials s) = Suc (nat (TRIALS_CAP + 1 - trials s1))"
    using t le by simp
  with r f l step(1,2) show ?case
    by (simp add: ts_loop_step)
qed

text \<open>
  When the two-sample test reports statistic 0 and p-value 1, the loop over the zero
  generator draws a hundred pairs, runs the test once and stops.
\<close>

lemma zero_run_100:
  "ts_loop stream_rvs (ks_const 0 1) (Returns_init 1 1 default_levy_parameters) (6/10) (1/100)
     ts_init (start_world (\<lambda>i. 0)) =
   (Inr \<lparr>trials = 100, p_value = 1, statistic = 0,
         p_list1 = replicate 100 0, p_list2 = replicate 100 0\<rparr>,
    \<lparr>rng = \<lambda>i. 0, plots = [], stdout = [StatisticLine 0 1 100]\<rparr>)"
  by (simp add: ts_loop.simps zero_ts_body ts_init_def start_world_def ts_continue_def
      TRIALS_CAP_def Let_def eval_nat_numeral)

section \<open>The stopping rule of the test-statistic method\<close>

text \<open>
  Claim C2. Take any pass through the head of the \<^verbatim>\<open>while\<close> of the test-statistic
  method, for any significance level and discrepancy, and suppose the loop returns from
  there. Then on exit either both \<open>statistic \<le> discrepancy\<close> and
  \<open>p_value \<ge> significance_level\<close> hold, or the trial count has passed the cap. If
  \<open>statistic > discrepancy\<close> or \<open>p_value < significance_level\<close> at the head, the loop
  draws again: the trial count and both samples grow. If neither holds at the head, the
  loop stops there and draws nothing.
\<close>

theorem ts_loop_stopping_rule:
  assumes "ts_loop rvs ks returns significance_level discrepancy s w = (Inr s', w')"
  shows "((statistic s' \<le> discrepancy \<and> p_value s' \<ge> significance_level) \<or>
            trials s' > TRIALS_CAP) \<and>
         (statistic s > discrepancy \<or> p_value s < significance_level \<longrightarrow>
            trials s < trials s' \<and>
            length (p_list1 s) < length (p_list1 s') \<and>
            length (p_list2 s) < length (p_list2 s')) \<and>
         (statistic s \<le> discrepancy \<and> p_value s \<ge> significance_level \<longrightarrow> s' = s \<and> w' = w)"
proof (intro conjI impI)
  from ts_loop_exit [OF assms]
  show "(statistic s' \<le> discrepancy \<and> p_value s' \<ge> significance_level) \<or> trials s' > TRIALS_CAP"
    by (auto simp: ts_continue_def)
next
  assume c: "statistic s > discrepancy \<or> p_value s < significance_level"
  then have "ts_continue significance_level discrepancy s" by (simp add: ts_continue_def)
  with ts_loop_progress [OF assms] show t: "trials s < trials s'" by simp
  from ts_loop_lists [OF assms] obtain l1 l2 where
    l: "p_list1 s' = p_list1 s @ l1" "p_list2 s' = p_list2 s @ l2"
      "int (length l1) = trials s' - trials s" "int (length l2) = trials s' - trials s"
    by blast
  from l t show "length (p_list1 s) < length (p_list1 s')" by auto
  from l t show "length (p_list2 s) < length (p_list2 s')" by auto
next
  assume "statistic s \<le> discrepancy \<and> p_value s \<ge> significance_level"
  then have "\<not> ts_continue significance_level discrepancy s" by (auto simp: ts_continue_def)
  from ts_loop_stop [OF this, of rvs ks returns w] assms show "s' = s" and "w' = w" by simp_all
qed

text \<open>
  The theorem at work on a run from the initial state that stops after the first test,
  at a hundred trials, with statistic \<open>0 \<le> 0.01\<close> and p-value \<open>1 \<ge> 0.6\<close>.
\<close>

theorem ts_loop_stopping_rule_witness:
  "ts_loop stream_rvs (ks_const 0 1) (Returns_init 1 1 default_levy_parameters) (6/10) (1/100)
     ts_init (start_world (\<lambda>i. 0)) =
   (Inr \<lparr>trials = 100, p_value = 1, statistic = 0,
         p_list1 = replicate 100 0, p_list2 = replicate 100 0\<rparr>,
    \<lparr>rng = \<lambda>i. 0, plots = [], stdout = [StatisticLine 0 1 100]\<rparr>) \<and>
   (0::real) \<le> 1/100 \<and> (1::real) \<ge> 6/10 \<and> statistic ts_init > 1/100 \<and>
   trials ts_init < 100"
  using ts_loop_stopping_rule [OF zero_run_100] zero_run_100
  by (simp add: ts_init_def)

text \<open>
  Claim C9. Whenever the test-statistic method returns a pair, the loop has ended in a
  state whose two samples \<open>p_list1\<close> and \<open>p_list2\<close> each hold exactly as many values as
  its trial count; the returned sequence is the first sample followed by the second, the
  returned count is that trial count, and so the sequence has twice as many values.
\<close>

theorem test_statistic_lengths:
  assumes "check_monte_carlo_trials rvs ks ''test_statistic'' n_obs nd significance_level
             discrepancy w = (Inr (Some (ps, t)), w')"
  shows "\<exists>s'. ts_loop rvs ks (Returns_init n_obs nd default_levy_parameters) significance_level
                discrepancy ts_init w = (Inr s', w') \<and>
              ps = p_list1 s' @ p_list2 s' \<and> t = Count (trials s') \<and>
              int (length (p_list1 s')) = trials s' \<and>
              int (length (p_list2 s')) = trials s' \<and>
              int (length ps) = 2 * trials s'"
proof -
  let ?r = "Returns_init n_obs nd default_levy_parameters"
  from assms obtain s' where
    run: "ts_loop rvs ks ?r significance_level discrepancy ts_init w = (Inr s', w')"
    and ps: "ps = p_list1 s' @ p_list2 s'" and t: "t = Count (trials s')"
    by (auto simp: check_monte_carlo_trials_def Let_def split: prod.splits sum.splits)
  from ts_loop_lists [OF run] have
    "int (length (p_list1 s')) = trials s'" "int (length (p_list2 s')) = trials s'"
    by (auto simp: ts_init_def)
  with run ps t show ?thesis by auto
qed

text \<open>The theorem at work on the run of a hundred trials: two hundred percentiles.\<close>

theorem test_statistic_lengths_witness:
  "check_monte_carlo_trials stream_rvs (ks_const 0 1) ''test_statistic'' 1 1 (6/10) (1/100)
     (start_world (\<lambda>i. 0)) =
   (Inr (Some (replicate 100 0 @ replicate 100 0, Count 100)),
    \<lparr>rng = \<lambda>i. 0, plots = [], stdout = [StatisticLine 0 1 100]\<rparr>) \<and>
   (\<exists>s'::ts_state. replicate 100 0 @ replicate 100 0 = p_list1 s' @ p_list2 s' \<and>
      trials s' = 100 \<and> length (p_list1 s') = 100 \<and> length (p_list2 s') = 100)"
proof -
  have run: "check_monte_carlo_trials stream_rvs (ks_const 0 1) ''test_statistic'' 1 1 (6/10) (1/100)
     (start_world (\<lambda>i. 0)) =
   (Inr (Some (replicate 100 0 @ replicate 100 0, Count 100)),
    \<lparr>rng = \<lambda>i. 0, plots = [], stdout = [StatisticLine 0 1 100]\<rparr>)"
    using zero_run_100 by (simp add: check_monte_carlo_trials_def)
  from test_statistic_lengths [OF run] obtain s' :: ts_state where
    a: "replicate 100 (0::real) @ replicate 100 0 = p_list1 s' @ p_list2 s'"
    and b: "Count 100 = Count (trials s')"
    and c: "int (length (p_list1 s')) = trials s'" "int (length (p_list2 s')) = trials s'"
    by blast
  from b have t: "trials s' = 100" by simp
  from c t have l: "length (p_list1 s') = 100" "length (p_list2 s') = 100" by simp_all
  from a t l have "replicate 100 0 @ replicate 100 0 = p_list1 s' @ p_list2 s' \<and>
      trials s' = 100 \<and> length (p_list1 s') = 100 \<and> length (p_list2 s') = 100"
    by (intro conjI)
  then have "\<exists>s'::ts_state. replicate 100 0 @ replicate 100 0 = p_list1 s' @ p_list2 s' \<and>
      trials s' = 100 \<and> length (p_list1 s') = 100 \<and> length (p_list2 s') = 100"
    by (rule exI)
  with run show ?thesis by (rule conjI)
qed

section \<open>The percentile and the generator\<close>

text \<open>
  With one observation and a window of one day, \<^verbatim>\<open>get_percentile\<close> over the stream
  generator returns the next value of the stream and moves the stream on by one.
\<close>

lemma stream_get_percentile:
  "get_percentile stream_rvs (Returns_init 1 1 ps) default_q_value w =
     (Inr (rng w 0), w\<lparr>rng := \<lambda>i. rng w (i + 1)\<rparr>)"
  by (simp add: get_percentile_def generate_ndays_returns_def generate_1day_returns_def
      stream_rvs_def Returns_init_def compound_1 np_percentile_single)

lemma sorted_reals_upto: "sort (map real [0..<n]) = map real [0..<n]"
  by (rule sorted_sort_id) (simp add: sorted_map sorted_wrt_iff_nth_less)

text \<open>
  Claim C1 says that \<^verbatim>\<open>get_percentile\<close> returns the \<open>q\<close>-quantile of the n-day
  series with \<open>q\<close> a probability, so that the default \<open>q = 0.01\<close> gives the value below
  which 1 percent of the mass lies. The code hands \<open>q\<close> to \<^verbatim>\<open>np.percentile\<close>, which
  reads it on the scale 0 to 100. On the n-day series \<open>0, 1, \<dots>, 100\<close> the default call
  returns \<open>0.01\<close>, the 0.0001-quantile, while the 0.01-quantile of that series is \<open>1\<close>.
\<close>

theorem get_percentile_default_scale:
  "fst (get_percentile stream_rvs (Returns_init 101 1 default_levy_parameters) default_q_value
          (start_world real)) = Inr (1 / 100) \<and>
   spec_quantile (compound (map real [0..<101]) 1) default_q_value = 1"
proof
  have "stream_rvs default_levy_parameters 101 real = Inr (map real [0..<101], \<lambda>i. real (i + 101))"
    by (simp add: stream_rvs_def)
  then show "fst (get_percentile stream_rvs (Returns_init 101 1 default_levy_parameters)
      default_q_value (start_world real)) = Inr (1 / 100)"
    by (simp add: get_percentile_def generate_ndays_returns_def generate_1day_returns_def
        Returns_init_def start_world_def compound_1 np_percentile_def default_q_value_def
        sorted_reals_upto Let_def del: upt_rec_numeral)
  show "spec_quantile (compound (map real [0..<101]) 1) default_q_value = 1"
    by (simp add: compound_1 spec_quantile_def default_q_value_def sorted_reals_upto Let_def
        del: upt_rec_numeral)
qed

text \<open>
  Claim C5 says that randomness reaches every sampling call through an explicit handle
  and never through implicit global state. \<^verbatim>\<open>get_percentile\<close> takes the object and
  \<open>q_value\<close> and nothing else, and draws from the process-wide generator: two calls in a
  row with the same object and the same \<open>q_value\<close> return different values, here \<open>0\<close>
  and then \<open>1\<close>.
\<close>

theorem get_percentile_implicit_state:
  "fst (get_percentile stream_rvs (Returns_init 1 1 default_levy_parameters) default_q_value
          (start_world real)) \<noteq>
   fst (get_percentile stream_rvs (Returns_init 1 1 default_levy_parameters) default_q_value
          (snd (get_percentile stream_rvs (Returns_init 1 1 default_levy_parameters)
                  default_q_value (start_world real))))"
  by (simp add: stream_get_percentile start_world_def)

text \<open>
  Claim C5 as amended. \<^verbatim>\<open>get_percentile\<close> reads the process-wide generator and
  nothing else of the world: started from two worlds with the same generator state it
  returns the same outcome and leaves the same generator state, and it leaves the
  rendering calls and the printed lines as they were.
\<close>

theorem get_percentile_reads_generator:
  assumes "rng w1 = rng w2"
  shows "fst (get_percentile rvs self q_value w1) = fst (get_percentile rvs self q_value w2) \<and>
         rng (snd (get_percentile rvs self q_value w1)) =
           rng (snd (get_percentile rvs self q_value w2)) \<and>
         plots (snd (get_percentile rvs self q_value w1)) = plots w1 \<and>
         stdout (snd (get_percentile rvs self q_value w1)) = stdout w1"
proof -
  obtain r w' where g: "get_percentile rvs self q_value w1 = (r, w')"
    by (cases "get_percentile rvs self q_value w1")
  from get_percentile_frame [OF g] g get_percentile_rng [OF assms, of rvs self q_value]
  show ?thesis by simp
qed

text \<open>The theorem at work on two worlds that differ in their printed lines only.\<close>

theorem get_percentile_reads_generator_witness:
  "rng (start_world real) = rng ((start_world real)\<lparr>stdout := [SimulationFailed]\<rparr>) \<and>
   fst (get_percentile stream_rvs (Returns_init 1 1 default_levy_parameters) default_q_value
          (start_world real)) = Inr 0 \<and>
   fst (get_percentile stream_rvs (Returns_init 1 1 default_levy_parameters) default_q_value
          ((start_world real)\<lparr>stdout := [SimulationFailed]\<rparr>)) = Inr 0"
proof -
  have e: "rng (start_world real) = rng ((start_world real)\<lparr>stdout := [SimulationFailed]\<rparr>)"
    by simp
  have "fst (get_percentile stream_rvs (Returns_init 1 1 default_levy_parameters) default_q_value
          (start_world real)) = Inr 0"
    by (simp add: stream_get_percentile start_world_def)
  with get_percentile_reads_generator [OF e, of stream_rvs
      "Returns_init 1 1 default_levy_parameters" default_q_value] e
  show ?thesis by simp
qed

section \<open>Method names\<close>

text \<open>
  Claim C10. For a method name other than \<^verbatim>\<open>'CLT'\<close>, \<^verbatim>\<open>'monitoring'\<close> and
  \<^verbatim>\<open>'test_statistic'\<close>, \<^verbatim>\<open>check_monte_carlo_trials\<close> raises nothing, returns
  \<^verbatim>\<open>None\<close> and leaves the world, the generator included, as it was: nothing is drawn.
\<close>

theorem unknown_method_returns_None:
  assumes "method \<noteq> ''CLT''" and "method \<noteq> ''monitoring''" and "method \<noteq> ''test_statistic''"
  shows "check_monte_carlo_trials rvs ks method n_obs nd significance_level discrepancy w =
           (Inr None, w)"
  using assms by (simp add: check_monte_carlo_trials_def)

text \<open>The theorem at work on the method name \<^verbatim>\<open>'bootstrap'\<close>.\<close>

theorem unknown_method_returns_None_witness:
  "check_monte_carlo_trials stream_rvs (ks_const 0 1) ''bootstrap'' 750 10 (6/10) (1/100)
     (start_world real) = (Inr None, start_world real)"
  by (rule unknown_method_returns_None) simp_all

section \<open>Configurations\<close>

lemma stream_rvs_total:
  "0 \<le> n \<Longrightarrow> \<forall>g. \<exists>xs g'. stream_rvs ps n g = Inr (xs, g') \<and> int (length xs) = n"
  by (simp add: stream_rvs_def)

lemma stream_get_percentile_total:
  "\<forall>w. \<exists>p w'. get_percentile stream_rvs (Returns_init 1 1 ps) default_q_value w = (Inr p, w')"
  by (simp add: stream_get_percentile)

text \<open>
  Claim C3 says that a call with \<open>ndays < 1\<close>, \<open>num_observations < ndays\<close> or
  \<open>trials < 1\<close> raises \<^verbatim>\<open>InvalidConfiguration\<close> before anything is drawn. The code
  checks nothing: with \<open>trials = 0\<close> \<^verbatim>\<open>simulate_monte_carlo\<close> returns the empty list and
  leaves the generator alone, and with \<open>ndays = 0\<close> it draws and returns a percentile.
\<close>

theorem simulate_monte_carlo_unvalidated:
  "simulate_monte_carlo stream_rvs 750 10 0 (start_world real) = (Inr [], start_world real) \<and>
   fst (simulate_monte_carlo stream_rvs 5 0 1 (start_world real)) = Inr [0]"
proof
  show "simulate_monte_carlo stream_rvs 750 10 0 (start_world real) = (Inr [], start_world real)"
    by (simp add: simulate_monte_carlo_def py_range_def)
next
  have d: "stream_rvs default_levy_parameters 5 real = Inr ([0, 1, 2, 3, 4], \<lambda>i. real (i + 5))"
    by (simp add: stream_rvs_def eval_nat_numeral)
  have c: "compound [0, 1, 2, 3, 4] 0 = [0, 0, 0, 0, 0, 0]"
    by (simp add: compound_def py_range_def py_slice_def eval_nat_numeral)
  have p: "np_percentile [0, 0, 0, 0, 0, 0] default_q_value = Inr 0"
    by (simp add: np_percentile_def default_q_value_def)
  show "fst (simulate_monte_carlo stream_rvs 5 0 1 (start_world real)) = Inr [0]"
    by (simp add: simulate_monte_carlo_def py_range_def get_percentile_def
        generate_ndays_returns_def generate_1day_returns_def Returns_init_def
        start_world_def d c p)
qed

text \<open>
  Claim C3 as amended. \<^verbatim>\<open>simulate_monte_carlo\<close> validates nothing and has no error of
  its own. With \<open>trials < 1\<close> it returns the empty list and draws nothing. With
  \<open>trials \<ge> 1\<close> its first action is the draw, whatever \<open>ndays\<close> and \<open>num_observations\<close>
  are: an exception of the sampler there is the exception of the call. With
  \<open>1 \<le> ndays \<le> num_observations\<close> and a sampler that delivers \<open>num_observations\<close>
  values from every generator state, it raises nothing and returns as many percentiles as
  there are trials.
\<close>

theorem simulate_monte_carlo_no_validation:
  "(n_trials < 1 \<longrightarrow> simulate_monte_carlo rvs n_obs nd n_trials w = (Inr [], w)) \<and>
   (1 \<le> n_trials \<and> rvs default_levy_parameters n_obs (rng w) = Inl e \<longrightarrow>
      simulate_monte_carlo rvs n_obs nd n_trials w = (Inl e, w)) \<and>
   ((\<forall>g. \<exists>xs g'. rvs default_levy_parameters n_obs g = Inr (xs, g') \<and> int (length xs) = n_obs) \<and>
    1 \<le> nd \<and> nd \<le> n_obs \<longrightarrow>
      (\<exists>ps w'. simulate_monte_carlo rvs n_obs nd n_trials w = (Inr ps, w') \<and>
         int (length ps) = max 0 n_trials))"
proof (intro conjI impI)
  assume "n_trials < 1"
  then show "simulate_monte_carlo rvs n_obs nd n_trials w = (Inr [], w)"
    by (simp add: simulate_monte_carlo_def py_range_def)
next
  assume a: "1 \<le> n_trials \<and> rvs default_levy_parameters n_obs (rng w) = Inl e"
  then obtain k where "nat n_trials = Suc k"
    by (cases "nat n_trials") auto
  with a show "simulate_monte_carlo rvs n_obs nd n_trials w = (Inl e, w)"
    by (simp add: simulate_monte_carlo_def py_range_def get_percentile_def
        generate_ndays_returns_def generate_1day_returns_def Returns_init_def)
next
  let ?r = "Returns_init n_obs nd default_levy_parameters"
  assume a: "(\<forall>g. \<exists>xs g'. rvs default_levy_parameters n_obs g = Inr (xs, g') \<and>
      int (length xs) = n_obs) \<and> 1 \<le> nd \<and> nd \<le> n_obs"
  have H: "\<exists>p w'. get_percentile rvs ?r default_q_value w = (Inr p, w')" for w :: "'a world"
  proof -
    from a have "\<exists>xs g'. rvs default_levy_parameters n_obs (rng w) = Inr (xs, g') \<and>
        int (length xs) = n_obs"
      by blast
    then obtain xs g' where
      "rvs (parameters ?r) (num_observations ?r) (rng w) = Inr (xs, g')"
      "int (length xs) = num_observations ?r"
      unfolding Returns_init_def by auto
    from get_percentile_ok [where rvs = rvs and self = ?r and w = w and q = default_q_value,
        OF this] a show ?thesis
      by (simp add: Returns_init_def default_q_value_def)
  qed
  from percentile_loop_total [of rvs ?r "length (py_range n_trials)" "[]" w, OF H]
  show "\<exists>ps w'. simulate_monte_carlo rvs n_obs nd n_trials w = (Inr ps, w') \<and>
         int (length ps) = max 0 n_trials"
    by (auto simp: simulate_monte_carlo_def py_range_def)
qed

text \<open>
  The theorem at work: no trials; a negative number of observations, which the sampler
  rejects at the first draw; and three trials over 750 observations.
\<close>

theorem simulate_monte_carlo_no_validation_witness:
  "simulate_monte_carlo stream_rvs 750 10 0 (start_world real) = (Inr [], start_world real) \<and>
   simulate_monte_carlo stream_rvs (- 1) 10 3 (start_world real) =
     (Inl ValueError, start_world real) \<and>
   (\<exists>ps w'. simulate_monte_carlo stream_rvs 750 10 3 (start_world real) = (Inr ps, w') \<and>
      int (length ps) = 3)"
proof -
  have e: "stream_rvs default_levy_parameters (- 1) (rng (start_world real)) = Inl ValueError"
    by (simp add: stream_rvs_def)
  from simulate_monte_carlo_no_validation [where n_trials = 0 and rvs = stream_rvs
        and n_obs = 750 and nd = 10 and w = "start_world real"]
    simulate_monte_carlo_no_validation [where n_trials = 3 and rvs = stream_rvs
        and n_obs = "- 1" and nd = 10 and w = "start_world real" and e = ValueError]
    simulate_monte_carlo_no_validation [where n_trials = 3 and rvs = stream_rvs
        and n_obs = 750 and nd = 10 and w = "start_world real"]
    stream_rvs_total [of 750 default_levy_parameters] e
  show ?thesis by simp
qed

section \<open>Rendering\<close>

text \<open>
  The loops of the CLT method over the generator of zeros: every percentile is zero, and
  so is every mean.
\<close>

lemma zero_percentile_loop:
  "rng w = (\<lambda>i. 0) \<Longrightarrow>
   percentile_loop stream_rvs (Returns_init 1 1 ps) k acc w = (Inr (acc @ replicate k 0), w)"
proof (induction k arbitrary: acc)
  case 0
  then show ?case by simp
next
  case (Suc k)
  from Suc.IH [OF Suc.prems, of "acc @ [0]"] Suc.prems show ?case
    by (simp add: zero_get_percentile replicate_app_Cons_same)
qed

lemma np_mean_zeros: "np_mean (replicate k 0) = 0"
  by (simp add: np_mean_def sum_list_replicate)

lemma zero_clt_loop:
  "rng w = (\<lambda>i. 0) \<Longrightarrow>
   \<exists>std'. clt_loop stream_rvs (Returns_init 1 1 ps) samples mean std w =
     (Inr (mean @ replicate (nat (CLT_MAX_SAMPLES - samples)) 0, std'), w)"
proof (induction "nat (CLT_MAX_SAMPLES - samples)" arbitrary: samples mean std)
  case 0
  then have "\<not> samples < CLT_MAX_SAMPLES" by simp
  with 0 show ?case by (simp add: clt_loop.simps)
next
  case (Suc n)
  then have lt: "samples < CLT_MAX_SAMPLES" and n: "n = nat (CLT_MAX_SAMPLES - (samples + 1))"
    by simp_all
  let ?pc = "replicate (length (py_range CLT_MAX_TRIALS)) (0::real)"
  from Suc.hyps(1) [OF n Suc.prems, of "mean @ [np_mean ?pc]" "std @ [np_std ?pc]"]
  obtain std' where "clt_loop stream_rvs (Returns_init 1 1 ps) (samples + 1)
      (mean @ [np_mean ?pc]) (std @ [np_std ?pc]) w =
     (Inr ((mean @ [np_mean ?pc]) @ replicate n 0, std'), w)"
    using n by auto
  moreover have "nat (CLT_MAX_SAMPLES - samples) = Suc n"
    using Suc.hyps(2) by simp
  ultimately show ?case
    using lt Suc.prems
    by (simp add: clt_loop.simps [of stream_rvs _ samples] zero_percentile_loop np_mean_zeros)
qed

lemma zero_clt_run:
  "\<exists>std'. clt_loop stream_rvs (Returns_init 1 1 default_levy_parameters) 0 [] [] (start_world (\<lambda>i. 0)) =
     (Inr (replicate 100 0, std'), start_world (\<lambda>i. 0))"
  using zero_clt_loop [of "start_world (\<lambda>i. 0)" default_levy_parameters 0 "[]" "[]"]
  by (simp add: start_world_def CLT_MAX_SAMPLES_def)

text \<open>
  Claim C8 says that the three procedures only return data and never call the rendering
  collaborator. The CLT method calls matplotlib itself: after its run over the generator
  of zeros the world holds the histogram of the hundred means, its title, its axis labels
  and the call that shows it.
\<close>

theorem clt_renders:
  "plots (snd (check_monte_carlo_trials stream_rvs (ks_const 0 1) ''CLT'' 1 1 (6/10) (1/100)
      (start_world (\<lambda>i. 0)))) =
   [Hist (replicate 100 0) (BinEdges (np_arange (- 400000) (- 200000) 5000)),
    Title ''Distribution of percentile means'', XLabel ''Values'', YLabel ''Count'', Show]"
proof -
  from zero_clt_run obtain std' where
    "clt_loop stream_rvs (Returns_init 1 1 default_levy_parameters) 0 [] [] (start_world (\<lambda>i. 0)) =
     (Inr (replicate 100 0, std'), start_world (\<lambda>i. 0))" by blast
  then show ?thesis
    by (simp add: check_monte_carlo_trials_def start_world_def)
qed

text \<open>
  Claim C8 as amended. Of the three procedures only the test-statistic method leaves the
  rendering calls as they were. When the CLT method returns it has appended the histogram
  of the means it returns, with its title, axis labels and \<^verbatim>\<open>show\<close>; when the
  monitoring method returns it has appended the plot of the running means against the
  trial numbers it returns, with title, axis labels, legend and \<^verbatim>\<open>show\<close>.
\<close>

theorem check_monte_carlo_trials_rendering:
  assumes "check_monte_carlo_trials rvs ks method n_obs nd significance_level discrepancy w =
             (Inr res, w')"
  shows "(method = ''test_statistic'' \<longrightarrow> plots w' = plots w) \<and>
         (method = ''CLT'' \<longrightarrow>
            (\<exists>mean. res = Some (mean, Count CLT_MAX_TRIALS) \<and>
               plots w' = plots w @
                 [Hist mean (BinEdges (np_arange (- 400000) (- 200000) 5000)),
                  Title ''Distribution of percentile means'',
                  XLabel ''Values'', YLabel ''Count'', Show])) \<and>
         (method = ''monitoring'' \<longrightarrow>
            (\<exists>means trace. res = Some (means, Trace trace) \<and>
               plots w' = plots w @
                 [Plot trace means, Title ''Value of percentiles mean '',
                  XLabel ''Trials'', YLabel ''Means'', Legend, Show])) \<and>
         (method \<noteq> ''CLT'' \<and> method \<noteq> ''monitoring'' \<longrightarrow> plots w' = plots w)"
proof -
  let ?r = "Returns_init n_obs nd default_levy_parameters"
  have ts: "plots w' = plots w" if "method = ''test_statistic''"
  proof -
    obtain x w1 where l: "ts_loop rvs ks ?r significance_level discrepancy ts_init w = (x, w1)"
      by (cases "ts_loop rvs ks ?r significance_level discrepancy ts_init w")
    from ts_loop_plots [OF l] l assms that show ?thesis
      by (auto simp: check_monte_carlo_trials_def Let_def split: sum.splits)
  qed
  have clt: "\<exists>mean. res = Some (mean, Count CLT_MAX_TRIALS) \<and>
               plots w' = plots w @
                 [Hist mean (BinEdges (np_arange (- 400000) (- 200000) 5000)),
                  Title ''Distribution of percentile means'',
                  XLabel ''Values'', YLabel ''Count'', Show]" if "method = ''CLT''"
  proof -
    obtain x w1 where l: "clt_loop rvs ?r 0 [] [] w = (x, w1)"
      by (cases "clt_loop rvs ?r 0 [] [] w")
    from clt_loop_frame [OF l] l assms that show ?thesis
      by (auto simp: check_monte_carlo_trials_def Let_def split: sum.splits prod.splits)
  qed
  have mon: "\<exists>means trace. res = Some (means, Trace trace) \<and>
               plots w' = plots w @
                 [Plot trace means, Title ''Value of percentiles mean '',
                  XLabel ''Trials'', YLabel ''Means'', Legend, Show]" if "method = ''monitoring''"
  proof -
    let ?s0 = "\<lparr>mean_perc = [], percentiles = [], trial = 0, trials_trace = []\<rparr>"
    obtain x w1 where l: "monitoring_loop rvs ?r ?s0 w = (x, w1)"
      by (cases "monitoring_loop rvs ?r ?s0 w")
    from monitoring_loop_frame [OF l] l assms that show ?thesis
      by (auto simp: check_monte_carlo_trials_def Let_def split: sum.splits prod.splits)
  qed
  have other: "plots w' = plots w" if "method \<noteq> ''CLT'' \<and> method \<noteq> ''monitoring''"
  proof (cases "method = ''test_statistic''")
    case True
    then show ?thesis by (rule ts)
  next
    case False
    with that assms show ?thesis by (simp add: check_monte_carlo_trials_def)
  qed
  from ts clt mon other show ?thesis by blast
qed

text \<open>The theorem at work on a CLT run and on a test-statistic run.\<close>

theorem check_monte_carlo_trials_rendering_witness:
  "check_monte_carlo_trials stream_rvs (ks_const 0 1) ''CLT'' 1 1 (6/10) (1/100)
      (start_world (\<lambda>i. 0)) =
    (Inr (Some (replicate 100 0, Count CLT_MAX_TRIALS)),
     (start_world (\<lambda>i. 0))\<lparr>plots :=
        [Hist (replicate 100 0) (BinEdges (np_arange (- 400000) (- 200000) 5000)),
         Title ''Distribution of percentile means'', XLabel ''Values'', YLabel ''Count'',
         Show]\<rparr>) \<and>
   plots (snd (check_monte_carlo_trials stream_rvs (ks_const 0 1) ''test_statistic'' 1 1 (6/10)
      (1/100) (start_world (\<lambda>i. 0)))) = []"
proof -
  from zero_clt_run obtain std' where
    "clt_loop stream_rvs (Returns_init 1 1 default_levy_parameters) 0 [] [] (start_world (\<lambda>i. 0)) =
     (Inr (replicate 100 0, std'), start_world (\<lambda>i. 0))" by blast
  then have c: "check_monte_carlo_trials stream_rvs (ks_const 0 1) ''CLT'' 1 1 (6/10) (1/100)
      (start_world (\<lambda>i. 0)) =
    (Inr (Some (replicate 100 0, Count CLT_MAX_TRIALS)),
     (start_world (\<lambda>i. 0))\<lparr>plots :=
        [Hist (replicate 100 0) (BinEdges (np_arange (- 400000) (- 200000) 5000)),
         Title ''Distribution of percentile means'', XLabel ''Values'', YLabel ''Count'',
         Show]\<rparr>)"
    by (simp add: check_monte_carlo_trials_def start_world_def)
  have t: "check_monte_carlo_trials stream_rvs (ks_const 0 1) ''test_statistic'' 1 1 (6/10) (1/100)
     (start_world (\<lambda>i. 0)) =
   (Inr (Some (replicate 100 0 @ replicate 100 0, Count 100)),
    \<lparr>rng = \<lambda>i. 0, plots = [], stdout = [StatisticLine 0 1 100]\<rparr>)"
    using zero_run_100 by (simp add: check_monte_carlo_trials_def)
  from check_monte_carlo_trials_rendering [OF c] check_monte_carlo_trials_rendering [OF t] c t
  show ?thesis by (simp add: start_world_def)
qed

section \<open>The cap of the test-statistic method\<close>

text \<open>
  Claim C4 says that a run that passes the cap returns its samples and trial count
  together with a flag or result variant that marks it as not converged. The run below
  never meets the stopping rule and passes the cap; what it returns is the pair of the
  concatenated samples and the trial count, the same kind of value as the converged run
  next to it returns.
\<close>

theorem test_statistic_cap_plain_pair:
  "fst (check_monte_carlo_trials stream_rvs (ks_const 1 0) ''test_statistic'' 1 1 (6/10) (1/100)
     (start_world (\<lambda>i. 0))) = Inr (Some (replicate 400002 0, Count 200001)) \<and>
   fst (check_monte_carlo_trials stream_rvs (ks_const 0 1) ''test_statistic'' 1 1 (6/10) (1/100)
     (start_world (\<lambda>i. 0))) = Inr (Some (replicate 200 0, Count 100))"
proof
  have "ts_continue (6/10) (1/100) ts_init" by (simp add: ts_continue_def ts_init_def)
  from zero_never_converges [of "1/100" 1 0 "6/10" "start_world (\<lambda>i. 0)" ts_init
      default_levy_parameters, OF _ _ this]
  obtain s' w' where
    "ts_loop stream_rvs (ks_const 1 0) (Returns_init 1 1 default_levy_parameters) (6/10) (1/100)
       ts_init (start_world (\<lambda>i. 0)) = (Inr s', w')"
    "trials s' = 200001" "p_list1 s' = replicate 200001 0" "p_list2 s' = replicate 200001 0"
    by (auto simp: start_world_def ts_init_def TRIALS_CAP_def)
  then show "fst (check_monte_carlo_trials stream_rvs (ks_const 1 0) ''test_statistic'' 1 1
      (6/10) (1/100) (start_world (\<lambda>i. 0))) = Inr (Some (replicate 400002 0, Count 200001))"
    by (simp add: check_monte_carlo_trials_def replicate_add [symmetric])
next
  show "fst (check_monte_carlo_trials stream_rvs (ks_const 0 1) ''test_statistic'' 1 1 (6/10)
      (1/100) (start_world (\<lambda>i. 0))) = Inr (Some (replicate 200 0, Count 100))"
    using zero_run_100 by (simp add: check_monte_carlo_trials_def replicate_add [symmetric])
qed

text \<open>
  Claim C4 as amended. When no draw raises, the test-statistic method returns normally,
  and what it returns is the pair of the concatenated samples and the trial count, whether
  the stopping rule was met or not. The trial count is at most 200001; it is 200001
  exactly when the stopping rule is still unmet on exit, and then the last line printed is
  the failure message. Each sample holds as many values as the trial count. No flag and no
  result variant is returned.
\<close>

theorem test_statistic_cap_outcome:
  assumes H: "\<forall>w. \<exists>p w'. get_percentile rvs (Returns_init n_obs nd default_levy_parameters)
                 default_q_value w = (Inr p, w')"
  shows "\<exists>s' w'.
           ts_loop rvs ks (Returns_init n_obs nd default_levy_parameters) significance_level
             discrepancy ts_init w = (Inr s', w') \<and>
           check_monte_carlo_trials rvs ks ''test_statistic'' n_obs nd significance_level
             discrepancy w = (Inr (Some (p_list1 s' @ p_list2 s', Count (trials s'))), w') \<and>
           trials s' \<le> TRIALS_CAP + 1 \<and>
           ((statistic s' > discrepancy \<or> p_value s' < significance_level) \<longleftrightarrow>
              trials s' = TRIALS_CAP + 1) \<and>
           (trials s' = TRIALS_CAP + 1 \<longrightarrow>
              stdout w' \<noteq> [] \<and> last (stdout w') = SimulationFailed) \<and>
           int (length (p_list1 s')) = trials s' \<and> int (length (p_list2 s')) = trials s'"
proof -
  let ?r = "Returns_init n_obs nd default_levy_parameters"
  from H have H': "\<And>w. \<exists>p w'. get_percentile rvs ?r default_q_value w = (Inr p, w')"
    by blast
  from ts_loop_total [of rvs ?r ks significance_level discrepancy ts_init w, OF H']
  obtain s' w' where
    run: "ts_loop rvs ks ?r significance_level discrepancy ts_init w = (Inr s', w')"
    by blast
  then have chk: "check_monte_carlo_trials rvs ks ''test_statistic'' n_obs nd significance_level
      discrepancy w = (Inr (Some (p_list1 s' @ p_list2 s', Count (trials s'))), w')"
    by (simp add: check_monte_carlo_trials_def)
  have "trials ts_init \<le> TRIALS_CAP" by (simp add: ts_init_def TRIALS_CAP_def)
  from ts_loop_cap [OF run this] have cap:
    "trials s' \<le> TRIALS_CAP + 1"
    "(statistic s' > discrepancy \<or> p_value s' < significance_level) \<longleftrightarrow>
       trials s' = TRIALS_CAP + 1"
    "trials s' = TRIALS_CAP + 1 \<longrightarrow> stdout w' \<noteq> [] \<and> last (stdout w') = SimulationFailed"
    by (simp_all add: ts_continue_def)
  from ts_loop_lists [OF run] have len:
    "int (length (p_list1 s')) = trials s'" "int (length (p_list2 s')) = trials s'"
    by (auto simp: ts_init_def)
  from run chk cap len show ?thesis by blast
qed

text \<open>The theorem at work on the run that never meets the stopping rule.\<close>

theorem test_statistic_cap_outcome_witness:
  "\<exists>(s'::ts_state) w'.
     check_monte_carlo_trials stream_rvs (ks_const 1 0) ''test_statistic'' 1 1 (6/10) (1/100)
       (start_world (\<lambda>i. 0)) = (Inr (Some (p_list1 s' @ p_list2 s', Count 200001)), w') \<and>
     trials s' = 200001 \<and> (statistic s' > 1/100 \<or> p_value s' < 6/10) \<and>
     last (stdout w') = SimulationFailed \<and>
     length (p_list1 s') = 200001 \<and> length (p_list2 s') = 200001"
proof -
  have c: "ts_continue (6/10) (1/100) ts_init" by (simp add: ts_continue_def ts_init_def)
  from zero_never_converges [of "1/100" 1 0 "6/10" "start_world (\<lambda>i. 0)" ts_init
      default_levy_parameters, OF _ _ c]
  obtain s1 w1 where r1:
    "ts_loop stream_rvs (ks_const 1 0) (Returns_init 1 1 default_levy_parameters) (6/10) (1/100)
       ts_init (start_world (\<lambda>i. 0)) = (Inr s1, w1)"
    "trials s1 = TRIALS_CAP + 1"
    by (auto simp: start_world_def ts_init_def TRIALS_CAP_def)
  from test_statistic_cap_outcome [where rvs = stream_rvs and ks = "ks_const 1 0"
      and significance_level = "6/10" and discrepancy = "1/100"
      and w = "start_world (\<lambda>i. 0)", OF stream_get_percentile_total]
  obtain s' w' where r:
    "ts_loop stream_rvs (ks_const 1 0) (Returns_init 1 1 default_levy_parameters) (6/10) (1/100)
       ts_init (start_world (\<lambda>i. 0)) = (Inr s', w')"
    "check_monte_carlo_trials stream_rvs (ks_const 1 0) ''test_statistic'' 1 1 (6/10) (1/100)
       (start_world (\<lambda>i. 0)) = (Inr (Some (p_list1 s' @ p_list2 s', Count (trials s'))), w')"
    "(statistic s' > 1/100 \<or> p_value s' < 6/10) \<longleftrightarrow> trials s' = TRIALS_CAP + 1"
    "trials s' = TRIALS_CAP + 1 \<longrightarrow> stdout w' \<noteq> [] \<and> last (stdout w') = SimulationFailed"
    "int (length (p_list1 s')) = trials s'" "int (length (p_list2 s'))  = trials s'"
    by blast
  from r1 r(1) have t: "trials s' = 200001" by (simp add: TRIALS_CAP_def)
  with r have fin: "check_monte_carlo_trials stream_rvs (ks_const 1 0) ''test_statistic'' 1 1 (6/10)
       (1/100) (start_world (\<lambda>i. 0)) = (Inr (Some (p_list1 s' @ p_list2 s', Count 200001)), w') \<and>
     trials s' = 200001 \<and> (statistic s' > 1/100 \<or> p_value s' < 6/10) \<and>
     last (stdout w') = SimulationFailed \<and>
     length (p_list1 s') = 200001 \<and> length (p_list2 s') = 200001"
    by (simp add: TRIALS_CAP_def)
  show ?thesis
    by (rule exI [of _ s'], rule exI [of _ w']) (rule fin)
qed

section \<open>Rounding in the compounding step\<close>

text \<open>
  Rounding to 53 bits moves a number by at most the fraction \<open>1 / 2 ^ 53\<close> of its size, and
  so does each float64 operation.
\<close>

lemma bit_length_bounds:
  "0 < n \<Longrightarrow> 2 ^ (bit_length n - 1) \<le> n \<and> n < 2 ^ bit_length n"
proof (induction n rule: bit_length.induct)
  case (1 n)
  show ?case
  proof (cases "n div 2 = 0")
    case True
    with "1.prems" have "n = 1" by (simp add: div_eq_0_iff) 
    then show ?thesis by (simp add: bit_length.simps)
  next
    case False
    with "1.IH" "1.prems" have ih: "2 ^ (bit_length (n div 2) - 1) \<le> n div 2"
      "n div 2 < 2 ^ bit_length (n div 2)" by simp_all
    from False have pos: "0 < bit_length (n div 2)" by (simp add: bit_length.simps [of "n div 2"])
    have bl: "bit_length n = Suc (bit_length (n div 2))"
      using "1.prems" by (simp add: bit_length.simps [of n])
    from pos obtain j where j: "bit_length (n div 2) = Suc j" by (cases "bit_length (n div 2)") auto
    from ih j have "2 * 2 ^ j \<le> n" "n < 2 * 2 ^ Suc j" by auto
    with bl j show ?thesis by simp
  qed
qed

lemma round_nearest_even_error:
  assumes "0 < k"
  shows "\<bar>round_nearest_even m k * 2 ^ k - m\<bar> \<le> 2 ^ (k - 1)"
proof -
  define q where "q = m div 2 ^ k"
  define r where "r = m mod 2 ^ k"
  have m: "m = q * 2 ^ k + r" unfolding q_def r_def by (rule div_mult_mod_eq [symmetric])
  have r: "0 \<le> r" "r < 2 ^ k" by (simp_all add: r_def)
  from assms obtain j where k: "k = Suc j" by (cases k) auto
  have h: "(2::int) ^ k = 2 * 2 ^ (k - 1)" by (simp add: k)
  have "round_nearest_even m k = q \<and> r \<le> 2 ^ (k - 1) \<or>
        round_nearest_even m k = q + 1 \<and> 2 ^ (k - 1) \<le> r"
    by (auto simp: round_nearest_even_def Let_def q_def r_def)
  then show ?thesis
  proof
    assume a: "round_nearest_even m k = q \<and> r \<le> 2 ^ (k - 1)"
    then have "round_nearest_even m k * 2 ^ k - m = - r" using m by simp
    with a r show ?thesis by simp
  next
    assume a: "round_nearest_even m k = q + 1 \<and> 2 ^ (k - 1) \<le> r"
    then have "round_nearest_even m k * 2 ^ k - m = 2 ^ k - r" using m by (simp add: algebra_simps)
    with a r h show ?thesis by simp
  qed
qed

lemma f64_val_powr: "f64_val (F64 m e) = real_of_int m * 2 powr real_of_int e"
  by (simp add: powr_real_of_int field_simps)

lemma pow_shift: "e \<le> e1 \<Longrightarrow> 2 ^ nat (e1 - e) * 2 powr real_of_int e = 2 powr real_of_int e1"
proof -
  assume le: "e \<le> e1"
  have "(2::real) ^ nat (e1 - e) = 2 powr real (nat (e1 - e))"
    by (simp add: powr_realpow)
  also have "real (nat (e1 - e)) = real_of_int e1 - real_of_int e"
    using le by simp
  finally show ?thesis by (simp add: powr_add [symmetric])
qed

lemma f64_round_error:
  "\<bar>f64_val (f64_round m e) - real_of_int m * 2 powr real_of_int e\<bar>
     \<le> \<bar>real_of_int m * 2 powr real_of_int e\<bar> / 2 ^ 53"
proof (cases "bit_length (nat \<bar>m\<bar>) \<le> 53")
  case True
  then show ?thesis by (simp add: f64_round_def f64_val_powr del: f64_val.simps)
next
  case False
  define n where "n = bit_length (nat \<bar>m\<bar>)"
  define k where "k = n - 53"
  from False have n: "53 < n" and k: "0 < k" and nk: "n = k + 53"
    by (simp_all add: n_def k_def)
  have "0 < nat \<bar>m\<bar>"
  proof (rule ccontr)
    assume "\<not> 0 < nat \<bar>m\<bar>"
    then have "n = 0" by (simp add: n_def bit_length.simps)
    with n show False by simp
  qed
  from bit_length_bounds [OF this] have "2 ^ (n - 1) \<le> nat \<bar>m\<bar>" by (simp add: n_def)
  then have "int (2 ^ (n - 1)) \<le> \<bar>m\<bar>" by linarith
  then have "(2::int) ^ (k + 52) \<le> \<bar>m\<bar>" using nk by (simp add: add.commute)
  then have "real_of_int (2 ^ (k + 52)) \<le> real_of_int \<bar>m\<bar>"
    by (rule of_int_le_iff [THEN iffD2])
  then have lo: "(2::real) ^ (k + 52) \<le> \<bar>real_of_int m\<bar>"
    by simp
  define m' where "m' = round_nearest_even m k"
  from round_nearest_even_error [OF k, of m] have "\<bar>m' * 2 ^ k - m\<bar> \<le> 2 ^ (k - 1)"
    by (simp add: m'_def)
  then have "real_of_int \<bar>m' * 2 ^ k - m\<bar> \<le> real_of_int (2 ^ (k - 1))"
    by (rule of_int_le_iff [THEN iffD2])
  then have err: "\<bar>real_of_int m' * 2 ^ k - real_of_int m\<bar> \<le> 2 ^ (k - 1)"
    by simp
  have "(2::real) ^ (k - 1) * 2 ^ 53 = 2 ^ (k + 52)"
    using k by (cases k) (simp_all add: power_add)
  with lo have "(2::real) ^ (k - 1) * 2 ^ 53 \<le> \<bar>real_of_int m\<bar>" by simp
  then have "(2::real) ^ (k - 1) \<le> \<bar>real_of_int m\<bar> / 2 ^ 53"
    by (simp add: field_simps)
  with err have e2: "\<bar>real_of_int m' * 2 ^ k - real_of_int m\<bar> \<le> \<bar>real_of_int m\<bar> / 2 ^ 53"
    by linarith
  have v: "f64_val (f64_round m e) = real_of_int m' * 2 ^ k * 2 powr real_of_int e"
  proof -
    have "f64_round m e = F64 m' (e + int k)"
      using False by (simp add: f64_round_def m'_def k_def n_def Let_def)
    moreover have "2 powr real_of_int (e + int k) = (2::real) ^ k * 2 powr real_of_int e"
      by (simp add: powr_add powr_realpow)
    ultimately show ?thesis by (simp add: f64_val_powr del: f64_val.simps)
  qed
  have "f64_val (f64_round m e) - real_of_int m * 2 powr real_of_int e =
        (real_of_int m' * 2 ^ k - real_of_int m) * 2 powr real_of_int e"
    by (simp add: v algebra_simps)
  then have "\<bar>f64_val (f64_round m e) - real_of_int m * 2 powr real_of_int e\<bar> =
        \<bar>real_of_int m' * 2 ^ k - real_of_int m\<bar> * 2 powr real_of_int e"
    by (simp add: abs_mult)
  also have "\<dots> \<le> (\<bar>real_of_int m\<bar> / 2 ^ 53) * 2 powr real_of_int e"
    using e2 by (rule mult_right_mono) simp
  also have "\<dots> = \<bar>real_of_int m * 2 powr real_of_int e\<bar> / 2 ^ 53"
    by (simp add: abs_mult)
  finally show ?thesis .
qed

lemma f64_add_error:
  "\<bar>f64_val (f64_add x y) - (f64_val x + f64_val y)\<bar> \<le> \<bar>f64_val x + f64_val y\<bar> / 2 ^ 53"
proof (cases x; cases y)
  fix m1 e1 m2 e2
  assume x: "x = F64 m1 e1" and y: "y = F64 m2 e2"
  define e where "e = min e1 e2"
  have "real_of_int (m1 * 2 ^ nat (e1 - e) + m2 * 2 ^ nat (e2 - e)) * 2 powr real_of_int e =
        f64_val x + f64_val y"
    using pow_shift [of e e1] pow_shift [of e e2]
    by (simp add: x y f64_val_powr e_def algebra_simps del: f64_val.simps)
  with f64_round_error [of "m1 * 2 ^ nat (e1 - e) + m2 * 2 ^ nat (e2 - e)" e]
  show ?thesis by (simp add: x y e_def Let_def del: f64_val.simps)
qed

lemma f64_sub_error:
  "\<bar>f64_val (f64_sub x y) - (f64_val x - f64_val y)\<bar> \<le> \<bar>f64_val x - f64_val y\<bar> / 2 ^ 53"
proof (cases x; cases y)
  fix m1 e1 m2 e2
  assume x: "x = F64 m1 e1" and y: "y = F64 m2 e2"
  define e where "e = min e1 e2"
  have "real_of_int (m1 * 2 ^ nat (e1 - e) - m2 * 2 ^ nat (e2 - e)) * 2 powr real_of_int e =
        f64_val x - f64_val y"
    using pow_shift [of e e1] pow_shift [of e e2]
    by (simp add: x y f64_val_powr e_def algebra_simps del: f64_val.simps)
  with f64_round_error [of "m1 * 2 ^ nat (e1 - e) - m2 * 2 ^ nat (e2 - e)" e]
  show ?thesis by (simp add: x y e_def Let_def del: f64_val.simps)
qed

lemma f64_mul_error:
  "\<bar>f64_val (f64_mul x y) - f64_val x * f64_val y\<bar> \<le> \<bar>f64_val x * f64_val y\<bar> / 2 ^ 53"
proof (cases x; cases y)
  fix m1 e1 m2 e2
  assume x: "x = F64 m1 e1" and y: "y = F64 m2 e2"
  have "real_of_int (m1 * m2) * 2 powr real_of_int (e1 + e2) = f64_val x * f64_val y"
    by (simp add: x y f64_val_powr powr_add del: f64_val.simps)
  with f64_round_error [of "m1 * m2" "e1 + e2"]
  show ?thesis by (simp add: x y del: f64_val.simps)
qed

lemma f64_val_one: "f64_val f64_one = 1"
  by (simp add: f64_one_def)

lemma length_compound_f64: "length (compound_f64 xs nd) = nat (int (length xs) - nd + 1)"
  by (simp add: compound_f64_def py_range_def)

lemma compound_f64_1:
  "compound_f64 xs 1 = map (\<lambda>x. f64_sub (f64_mul f64_one (f64_add x f64_one)) f64_one) xs"
  by (rule nth_equalityI)
    (simp_all add: compound_f64_def py_range_def py_slice_window1 f64_prod_def)

lemma window_one_error:
  "\<bar>f64_val (f64_sub (f64_mul f64_one (f64_add x f64_one)) f64_one) - f64_val x\<bar>
     \<le> (\<bar>f64_val x\<bar> + 1) / 2 ^ 51"
proof -
  define v where "v = f64_val x"
  define y where "y = f64_val (f64_add x f64_one)"
  define p where "p = f64_val (f64_mul f64_one (f64_add x f64_one))"
  define r where "r = f64_val (f64_sub (f64_mul f64_one (f64_add x f64_one)) f64_one)"
  have h1: "\<bar>y - (v + 1)\<bar> \<le> \<bar>v + 1\<bar> / 9007199254740992"
    using f64_add_error [of x f64_one] by (simp add: y_def v_def f64_val_one)
  have h2: "\<bar>p - y\<bar> \<le> \<bar>y\<bar> / 9007199254740992"
    using f64_mul_error [of f64_one "f64_add x f64_one"] by (simp add: p_def y_def f64_val_one)
  have h3: "\<bar>r - (p - 1)\<bar> \<le> \<bar>p - 1\<bar> / 9007199254740992"
    using f64_sub_error [of "f64_mul f64_one (f64_add x f64_one)" f64_one]
    by (simp add: r_def p_def f64_val_one)
  define A where "A = \<bar>v\<bar> + 1"
  have A: "1 \<le> A" "\<bar>v\<bar> \<le> A" "\<bar>v + 1\<bar> \<le> A" by (simp_all add: A_def)
  have "\<bar>v + 1\<bar> / 9007199254740992 \<le> A / 9007199254740992"
    using A(3) by (rule divide_right_mono) simp
  with h1 have b1: "\<bar>y - (v + 1)\<bar> \<le> A / 9007199254740992" by (rule order_trans)
  have "\<bar>y\<bar> \<le> \<bar>v + 1\<bar> + \<bar>y - (v + 1)\<bar>" by linarith
  with b1 A have c1: "\<bar>y\<bar> \<le> (9 / 8) * A" by linarith
  have "\<bar>y\<bar> / 9007199254740992 \<le> (9 / 8) * A / 9007199254740992"
    using c1 by (rule divide_right_mono) simp
  with h2 have b2: "\<bar>p - y\<bar> \<le> (9 / 8) * A / 9007199254740992" by (rule order_trans)
  have "\<bar>p - 1\<bar> \<le> \<bar>p - y\<bar> + \<bar>y - (v + 1)\<bar> + \<bar>v\<bar>" by linarith
  with b1 b2 A have c2: "\<bar>p - 1\<bar> \<le> (9 / 8) * A" by linarith
  have "\<bar>p - 1\<bar> / 9007199254740992 \<le> (9 / 8) * A / 9007199254740992"
    using c2 by (rule divide_right_mono) simp
  with h3 have b3: "\<bar>r - (p - 1)\<bar> \<le> (9 / 8) * A / 9007199254740992" by (rule order_trans)
  have "\<bar>r - v\<bar> \<le> \<bar>r - (p - 1)\<bar> + \<bar>p - y\<bar> + \<bar>y - (v + 1)\<bar>" by linarith
  with b1 b2 b3 A have "\<bar>r - v\<bar> \<le> A / 2251799813685248" by linarith
  then have "\<bar>r - v\<bar> \<le> (\<bar>v\<bar> + 1) / 2251799813685248" by (simp add: A_def)
  then show ?thesis by (simp add: r_def v_def)
qed

lemma f64_tenth_run:
  "compound_f64 [F64 3602879701896397 (- 55)] 1 = [F64 450359962737050 (- 52)]"
proof -
  have "bit_length 39631676720860365 = 56" "bit_length 4953959590107546 = 53"
    "bit_length 450359962737050 = 49"
    by (simp_all add: bit_length.simps)
  then show ?thesis
    by (simp add: compound_f64_def py_range_def py_slice_def f64_prod_def f64_one_def
        f64_round_def round_nearest_even_def Let_def)
qed

lemma f64_tiny_run: "compound_f64 [F64 1 (- 60)] 1 = [F64 0 (- 52)]"
proof -
  have "bit_length 1152921504606846977 = 61" "bit_length 4503599627370496 = 53"
    "bit_length 0 = 0"
    by (simp_all add: bit_length.simps)
  then show ?thesis
    by (simp add: compound_f64_def py_range_def py_slice_def f64_prod_def f64_one_def
        f64_round_def round_nearest_even_def Let_def)
qed

text \<open>
  Claim C7 says that with a window of one day the compounded series equals the one-day
  series entry by entry. The program adds one, multiplies and subtracts one in float64.
  For the float nearest to \<open>0.1\<close> the sum \<open>x + 1\<close> is rounded up, and what comes back is
  \<open>0.10000000000000009\<close>; for \<open>1 / 2 ^ 60\<close> the sum is rounded to one and what comes back is
  zero.
\<close>

theorem compound_window_one_float64:
  "compound_f64 [F64 3602879701896397 (- 55)] 1 = [F64 450359962737050 (- 52)] \<and>
   map f64_val (compound_f64 [F64 3602879701896397 (- 55)] 1) \<noteq>
     map f64_val [F64 3602879701896397 (- 55)] \<and>
   map f64_val (compound_f64 [F64 1 (- 60)] 1) = [0] \<and>
   map f64_val (compound_f64 [F64 1 (- 60)] 1) \<noteq> map f64_val [F64 1 (- 60)]"
  by (simp add: f64_tenth_run f64_tiny_run)

text \<open>
  Claim C7 as amended. With a window of one day the compounded series equals the one-day
  series entry by entry in exact arithmetic. In float64 arithmetic it has the same length,
  its entry for \<open>x\<close> is \<open>(1 * (x + 1)) - 1\<close> with every operation rounded, and that entry
  differs from \<open>x\<close> by at most \<open>(\<bar>x\<bar> + 1) / 2 ^ 51\<close>.
\<close>

theorem compound_window_one_rounded:
  "compound series 1 = series \<and>
   compound_f64 xs 1 =
     map (\<lambda>x. f64_sub (f64_mul f64_one (f64_add x f64_one)) f64_one) xs \<and>
   list_all2 (\<lambda>r x. \<bar>f64_val r - f64_val x\<bar> \<le> (\<bar>f64_val x\<bar> + 1) / 2 ^ 51)
     (compound_f64 xs 1) xs"
proof (intro conjI)
  show "compound series 1 = series" by (rule compound_1)
  show "compound_f64 xs 1 =
      map (\<lambda>x. f64_sub (f64_mul f64_one (f64_add x f64_one)) f64_one) xs"
    by (rule compound_f64_1)
  show "list_all2 (\<lambda>r x. \<bar>f64_val r - f64_val x\<bar> \<le> (\<bar>f64_val x\<bar> + 1) / 2 ^ 51)
      (compound_f64 xs 1) xs"
    unfolding compound_f64_1 list_all2_map1
    by (rule list_all2_refl) (rule window_one_error)
qed

text \<open>The theorem at work on the float nearest to \<open>0.1\<close>.\<close>

theorem compound_window_one_rounded_witness:
  "compound [1 / 10] 1 = [1 / 10] \<and>
   compound_f64 [F64 3602879701896397 (- 55)] 1 = [F64 450359962737050 (- 52)] \<and>
   \<bar>f64_val (F64 450359962737050 (- 52)) - f64_val (F64 3602879701896397 (- 55))\<bar>
     \<le> (\<bar>f64_val (F64 3602879701896397 (- 55))\<bar> + 1) / 2 ^ 51"
proof -
  note th = compound_window_one_rounded [of "[1 / 10]" "[F64 3602879701896397 (- 55)]"]
  from th have a: "compound [1 / 10] 1 = [1 / 10]" by (rule conjunct1)
  from th [THEN conjunct2, THEN conjunct2]
  have "list_all2 (\<lambda>r x. \<bar>f64_val r - f64_val x\<bar> \<le> (\<bar>f64_val x\<bar> + 1) / 2 ^ 51)
      [F64 450359962737050 (- 52)] [F64 3602879701896397 (- 55)]"
    unfolding f64_tenth_run .
  then have c: "\<bar>f64_val (F64 450359962737050 (- 52)) - f64_val (F64 3602879701896397 (- 55))\<bar>
     \<le> (\<bar>f64_val (F64 3602879701896397 (- 55))\<bar> + 1) / 2 ^ 51"
    by (simp del: f64_val.simps)
  from a f64_tenth_run c show ?thesis by (intro conjI)
qed

end
